theory Spec2Isabelle
  imports Complex_Main
begin

section \<open>Python and NumPy values\<close>

text \<open>
  Exceptions are values: every function that can raise returns \<open>error + 'a\<close>, with
  \<open>Inl\<close> for the exception. \<open>InvalidAddress\<close> is not a Python exception: it is what the
  model returns for an address that is not in the store, which Python references never are.
\<close>

datatype error =
    KeyError string
  | ValueError string
  | TypeError string
  | NotImplementedError string
  | RuntimeError string
  | InvalidAddress

text \<open>
  A \<open>float64\<close> is a finite number, an infinity or NaN. \<open>Num\<close> holds any real: the
  values of a program are the binary64 numbers among them, and every result of an
  operation is rounded to one. The two zeros are not told apart.
\<close>

datatype float64 = Num real | PosInf | NegInf | NaN

fun isnan :: "float64 \<Rightarrow> bool" where
  "isnan NaN = True"
| "isnan _ = False"

fun isfinite :: "float64 \<Rightarrow> bool" where
  "isfinite (Num _) = True"
| "isfinite _ = False"

text \<open>
  The result of an arithmetic operation is the exact result rounded to the nearest
  binary64 number, ties to even: 53 significant bits, the least exponent \<open>-1022\<close>
  (below it the spacing stays \<open>2\<^sup>-\<^sup>1\<^sup>0\<^sup>7\<^sup>4\<close>), and a rounded value of magnitude \<open>2\<^sup>1\<^sup>0\<^sup>2\<^sup>4\<close> or
  more overflows to the infinity of its sign. \<open>round_even\<close> rounds to the nearest
  integer, ties to even; \<open>quantum x\<close> is the spacing of the binary64 numbers around \<open>x\<close>.
\<close>

definition round_even :: "real \<Rightarrow> int" where
  "round_even x =
     (if x - of_int \<lfloor>x\<rfloor> < 1 / 2 then \<lfloor>x\<rfloor>
      else if 1 / 2 < x - of_int \<lfloor>x\<rfloor> then \<lfloor>x\<rfloor> + 1
      else if even \<lfloor>x\<rfloor> then \<lfloor>x\<rfloor> else \<lfloor>x\<rfloor> + 1)"

definition expo :: "real \<Rightarrow> int" where
  "expo x = max \<lfloor>log 2 \<bar>x\<bar>\<rfloor> (- 1022)"

definition quantum :: "real \<Rightarrow> real" where
  "quantum x = 2 powr of_int (expo x - 52)"

definition mant :: "real \<Rightarrow> real" where
  "mant x = of_int (round_even (x / quantum x)) * quantum x"

definition round64 :: "real \<Rightarrow> float64" where
  "round64 x =
     (if x = 0 then Num 0
      else if 2 ^ 1024 \<le> mant x then PosInf
      else if mant x \<le> - (2 ^ 1024) then NegInf
      else Num (mant x))"

text \<open>IEEE subtraction \<open>a - b\<close>.\<close>

fun fsub :: "float64 \<Rightarrow> float64 \<Rightarrow> float64" where
  "fsub NaN _ = NaN"
| "fsub _ NaN = NaN"
| "fsub (Num a) (Num b) = round64 (a - b)"
| "fsub (Num a) PosInf = NegInf"
| "fsub (Num a) NegInf = PosInf"
| "fsub PosInf PosInf = NaN"
| "fsub PosInf _ = PosInf"
| "fsub NegInf NegInf = NaN"
| "fsub NegInf _ = NegInf"

text \<open>\<open>np.maximum\<close> of two numbers: NaN wins.\<close>

fun fmax :: "float64 \<Rightarrow> float64 \<Rightarrow> float64" where
  "fmax NaN _ = NaN"
| "fmax _ NaN = NaN"
| "fmax PosInf _ = PosInf"
| "fmax _ PosInf = PosInf"
| "fmax NegInf y = y"
| "fmax x NegInf = x"
| "fmax (Num a) (Num b) = Num (max a b)"

text \<open>IEEE comparison \<open>a <= b\<close>: false when either side is NaN.\<close>

fun fle :: "float64 \<Rightarrow> float64 \<Rightarrow> bool" where
  "fle NaN _ = False"
| "fle _ NaN = False"
| "fle NegInf _ = True"
| "fle _ PosInf = True"
| "fle (Num a) (Num b) = (a \<le> b)"
| "fle _ _ = False"

text \<open>
  IEEE comparison \<open>a == b\<close>: false when either side is NaN. \<open>np.array_equal\<close> of two
  one-dimensional arrays: the same length and every pair of elements equal.
\<close>

fun feq :: "float64 \<Rightarrow> float64 \<Rightarrow> bool" where
  "feq NaN _ = False"
| "feq _ NaN = False"
| "feq x y = (x = y)"

definition array_equal :: "float64 list \<Rightarrow> float64 list \<Rightarrow> bool" where
  "array_equal xs ys \<longleftrightarrow> list_all2 feq xs ys"

text \<open>\<open>np.max\<close> of a one-dimensional array raises on an empty array.\<close>

fun np_max :: "float64 list \<Rightarrow> error + float64" where
  "np_max [] =
     Inl (ValueError ''zero-size array to reduction operation maximum which has no identity'')"
| "np_max (x # xs) = Inr (foldl fmax x xs)"

text \<open>
  \<open>repr\<close> of a \<open>str\<close>, for ASCII text: the string is quoted with \<open>'\<close>, or with \<open>"\<close> when it
  contains \<open>'\<close> and no \<open>"\<close>; the backslash, the quote and the characters that do not print
  are escaped.
\<close>

definition hexdigit :: "nat \<Rightarrow> char" where
  "hexdigit n = ''0123456789abcdef'' ! (n mod 16)"

definition repr_char :: "char \<Rightarrow> char \<Rightarrow> string" where
  "repr_char q c =
     (if c = CHR 0x5C then [CHR 0x5C, CHR 0x5C]
      else if c = q then [CHR 0x5C, q]
      else if c = CHR 0x0A then [CHR 0x5C, CHR ''n'']
      else if c = CHR 0x0D then [CHR 0x5C, CHR ''r'']
      else if c = CHR 0x09 then [CHR 0x5C, CHR ''t'']
      else if (of_char c :: nat) < 0x20 \<or> 0x7F \<le> (of_char c :: nat)
        then [CHR 0x5C, CHR ''x'', hexdigit (of_char c div 16), hexdigit (of_char c)]
      else [c])"

definition repr_str :: "string \<Rightarrow> string" where
  "repr_str s =
     (let q = (if CHR 0x27 \<in> set s \<and> CHR 0x22 \<notin> set s then CHR 0x22 else CHR 0x27)
      in q # concat (map (repr_char q) s) @ [q])"

text \<open>The characters that \<open>repr\<close> leaves as they are, whatever the quote.\<close>

definition plain_char :: "char \<Rightarrow> bool" where
  "plain_char c \<longleftrightarrow>
     0x20 \<le> (of_char c :: nat) \<and> (of_char c :: nat) < 0x7F
     \<and> c \<noteq> CHR 0x5C \<and> c \<noteq> CHR 0x27 \<and> c \<noteq> CHR 0x22"

text \<open>The values that parameter dictionaries hold.\<close>

datatype pyval = PNone | PBool bool | PInt int | PFloat float64 | PStr string

section \<open>The store\<close>

text \<open>
  Objects live in a store and are named by their address, so that "the same object" and
  "shares memory" can be said. An address is an index into the list of the objects of its
  kind; allocation appends, nothing is ever freed.

  \<^item> \<open>ndarrays\<close>: one-dimensional \<open>float64\<close> arrays (the pseudotime);
  \<^item> \<open>buffers\<close>: the entries of a matrix, as rows;
  \<^item> \<open>spmatrices\<close>: sparse matrix objects, each holding the address of its buffer;
  \<^item> \<open>kernels\<close>: \<open>PseudotimeKernel\<close> objects.
\<close>

type_synonym addr = nat

record AnnData =
  obs :: "string \<rightharpoonup> float64 list"
  n_neighbors :: "pyval option"

record spmatrix =
  data :: addr

record kernel =
  adata :: AnnData
  backward :: bool
  time_key :: string
  conn :: "real list list"
  pseudotime :: addr
  params :: "string \<rightharpoonup> pyval"
  cond_num :: "real option"
  transition_matrix :: "addr option"

record heap =
  ndarrays :: "float64 list list"
  buffers :: "real list list list"
  spmatrices :: "spmatrix list"
  kernels :: "kernel list"

text \<open>The pseudotime array of the kernel at an address, read through the store.\<close>

definition kernel_pseudotime :: "heap \<Rightarrow> addr \<Rightarrow> float64 list option" where
  "kernel_pseudotime h r =
     (if r < length (kernels h) \<and> pseudotime (kernels h ! r) < length (ndarrays h)
      then Some (ndarrays h ! pseudotime (kernels h ! r)) else None)"

section \<open>PseudotimeKernel\<close>

subsection \<open>Construction\<close>

text \<open>
  \<open>PseudotimeKernel._read_from_adata\<close>. The base class's \<open>_read_from_adata\<close>, which reads
  the connectivities and may raise, is not part of the sources: it is the parameter
  \<open>base_read\<close>. An \<open>obs\<close> column is taken to be numeric, so \<open>astype\<close> does not raise.
\<close>

definition read_from_adata ::
  "(AnnData \<Rightarrow> error + real list list) \<Rightarrow> AnnData \<Rightarrow> bool \<Rightarrow> string
     \<Rightarrow> error + (real list list \<times> float64 list)" where
  "read_from_adata base_read ad bw tk =
     (case base_read ad of
        Inl e \<Rightarrow> Inl e
      | Inr c \<Rightarrow>
          (case obs ad tk of
             None \<Rightarrow>
               Inl (KeyError (''Could not find time key in `adata.obs['' @ repr_str tk @ '']`.''))
           | Some col \<Rightarrow>
               (case (if bw
                      then (case np_max col of
                              Inl e \<Rightarrow> Inl e
                            | Inr m \<Rightarrow> Inr (map (fsub m) col))
                      else Inr col) of
                  Inl e \<Rightarrow> Inl e
                | Inr pt \<Rightarrow>
                    if list_ex isnan pt
                    then Inl (ValueError ''Encountered NaN values in pseudotime.'')
                    else Inr (c, pt))))"

text \<open>
  Modelled from the spec: the constructor of the base class \<open>Kernel\<close> is not part of the
  sources. It records \<open>adata\<close> and \<open>backward\<close>, calls \<open>_read_from_adata\<close> with the keyword
  arguments it was given (here \<open>time_key\<close>), and leaves the kernel in the state
  UNINITIALIZED: no parameters, no condition number, no transition matrix.
  \<open>PseudotimeKernel.__init__\<close> then stores \<open>_time_key\<close>. When \<open>_read_from_adata\<close> raises,
  no kernel is returned and the store is as it was.
\<close>

definition PseudotimeKernel_init ::
  "(AnnData \<Rightarrow> error + real list list) \<Rightarrow> heap \<Rightarrow> AnnData \<Rightarrow> bool \<Rightarrow> string
     \<Rightarrow> heap \<times> (error + addr)" where
  "PseudotimeKernel_init base_read h ad bw tk =
     (case read_from_adata base_read ad bw tk of
        Inl e \<Rightarrow> (h, Inl e)
      | Inr (c, pt) \<Rightarrow>
          (h\<lparr>ndarrays := ndarrays h @ [pt],
             kernels := kernels h @
               [\<lparr>adata = ad, backward = bw, time_key = tk, conn = c,
                 pseudotime = length (ndarrays h), params = Map.empty,
                 cond_num = None, transition_matrix = None\<rparr>]\<rparr>,
           Inr (length (kernels h))))"

subsection \<open>Inversion\<close>

text \<open>
  Modelled from the spec: \<open>Kernel.__invert__\<close> of the base class is not part of the
  sources; it toggles the direction in place and returns self.
\<close>

definition Kernel_invert :: "kernel \<Rightarrow> kernel" where
  "Kernel_invert k = k\<lparr>backward := \<not> backward k\<rparr>"

text \<open>
  \<open>PseudotimeKernel.__invert__\<close>: the base class's inversion on the object itself, then
  \<open>self._pseudotime = np.max(self.pseudotime) - self.pseudotime\<close>: the difference is a new
  array, and the field is rebound to it. When \<open>np.max\<close> raises, the direction has already
  been toggled. The result is the address of the receiver.
\<close>

definition invert :: "heap \<Rightarrow> addr \<Rightarrow> heap \<times> (error + addr)" where
  "invert h r =
     (if r < length (kernels h) then
        (let k = Kernel_invert (kernels h ! r);
             h1 = h\<lparr>kernels := (kernels h)[r := k]\<rparr>
         in if pseudotime k < length (ndarrays h1) then
              (case np_max (ndarrays h1 ! pseudotime k) of
                 Inl e \<Rightarrow> (h1, Inl e)
               | Inr m \<Rightarrow>
                   (h1\<lparr>ndarrays := ndarrays h1 @ [map (fsub m) (ndarrays h1 ! pseudotime k)],
                       kernels := (kernels h1)[r := k\<lparr>pseudotime := length (ndarrays h1)\<rparr>]\<rparr>,
                    Inr r))
            else (h1, Inl InvalidAddress))
      else (h, Inl InvalidAddress))"

subsection \<open>Computing the transition matrix\<close>

text \<open>\<open>np.min\<close> of a one-dimensional array raises on an empty array.\<close>

fun np_min :: "real list \<Rightarrow> error + real" where
  "np_min [] =
     Inl (ValueError ''zero-size array to reduction operation minimum which has no identity'')"
| "np_min (x # xs) = Inr (foldl min x xs)"

text \<open>
  Modelled from the spec: the enumeration \<open>ThresholdScheme\<close> of
  \<open>cellrank.tl._constants\<close> is not part of the sources. Its members are the two schemes
  that \<open>compute_transition_matrix\<close> names, with the values \<open>"soft"\<close> and \<open>"hard"\<close> of the
  signature; constructing it from any other string raises a ValueError, and \<open>str\<close> of a
  member is its value. With these two members the \<open>NotImplementedError\<close> branch of
  \<open>compute_transition_matrix\<close> cannot be reached.
\<close>

datatype ThresholdScheme = SOFT | HARD

definition ThresholdScheme_of :: "string \<Rightarrow> error + ThresholdScheme" where
  "ThresholdScheme_of s =
     (if s = ''soft'' then Inr SOFT
      else if s = ''hard'' then Inr HARD
      else Inl (ValueError (repr_str s @ '' is not a valid ThresholdScheme'')))"

fun ThresholdScheme_str :: "ThresholdScheme \<Rightarrow> string" where
  "ThresholdScheme_str SOFT = ''soft''"
| "ThresholdScheme_str HARD = ''hard''"

text \<open>
  What a caller can pass as \<open>threshold_scheme\<close>: a string, an instance of
  \<open>ThresholdSchemeABC\<close>, another callable, or an object that is none of these (with the
  name of its type). Objects carry their identity and what \<open>str\<close> returns for them.
\<close>

datatype threshold_scheme_arg =
    Str string
  | SchemeInstance nat string
  | Callable nat string
  | NotCallable string

text \<open>The scheme object that biases the graph.\<close>

datatype scheme =
    SoftThresholdScheme
  | HardThresholdScheme
  | CustomThresholdScheme nat
  | GivenScheme nat

text \<open>
  The dispatch on \<open>threshold_scheme\<close>: the scheme, the string \<open>str(threshold_scheme)\<close>
  that goes into the cache key, and the keyword arguments extended with the parameters of
  the scheme.
\<close>

definition select_scheme ::
  "threshold_scheme_arg \<Rightarrow> pyval \<Rightarrow> pyval \<Rightarrow> pyval \<Rightarrow> pyval \<Rightarrow> (string \<rightharpoonup> pyval)
     \<Rightarrow> error + (scheme \<times> string \<times> (string \<rightharpoonup> pyval))" where
  "select_scheme threshold_scheme frac_to_keep b nu n_neighs kwargs =
     (case threshold_scheme of
        Str s \<Rightarrow>
          (case ThresholdScheme_of s of
             Inl e \<Rightarrow> Inl e
           | Inr SOFT \<Rightarrow>
               Inr (SoftThresholdScheme, ThresholdScheme_str SOFT,
                    kwargs(''b'' \<mapsto> b, ''nu'' \<mapsto> nu))
           | Inr HARD \<Rightarrow>
               Inr (HardThresholdScheme, ThresholdScheme_str HARD,
                    kwargs(''frac_to_keep'' \<mapsto> frac_to_keep, ''n_neighs'' \<mapsto> n_neighs)))
      | SchemeInstance i s \<Rightarrow> Inr (GivenScheme i, s, kwargs)
      | Callable i s \<Rightarrow> Inr (CustomThresholdScheme i, s, kwargs)
      | NotCallable ty \<Rightarrow>
          Inl (TypeError (''Expected `threshold_scheme` to be either a `str` or a `callable`, found `''
                 @ ty @ ''`.'')))"

text \<open>
  \<open>adata.uns['neighbors']['params']['n_neighbors']\<close>, or when it is absent or None the
  estimate \<open>np.min(self._conn.sum(1))\<close>.
\<close>

definition get_n_neighbors :: "AnnData \<Rightarrow> real list list \<Rightarrow> error + pyval" where
  "get_n_neighbors ad c =
     (case n_neighbors ad of
        Some (PBool v) \<Rightarrow> Inr (PBool v)
      | Some (PInt v) \<Rightarrow> Inr (PInt v)
      | Some (PFloat v) \<Rightarrow> Inr (PFloat v)
      | Some (PStr v) \<Rightarrow> Inr (PStr v)
      | _ \<Rightarrow>
          (case np_min (map sum_list c) of
             Inl e \<Rightarrow> Inl e
           | Inr v \<Rightarrow> Inr (PFloat (Num v))))"

text \<open>
  Modelled from the spec: \<open>Kernel._reuse_cache\<close> is not part of the sources. The cache is
  keyed by all parameters, the scheme identity included: a call whose parameters are those
  stored with the present transition matrix reuses it; any mismatch records the new
  parameters, and the caller recomputes.
\<close>

definition reuse_cache :: "kernel \<Rightarrow> (string \<rightharpoonup> pyval) \<Rightarrow> bool \<times> kernel" where
  "reuse_cache k expected_params =
     (if params k = expected_params \<and> transition_matrix k \<noteq> None then (True, k)
      else (False, k\<lparr>params := expected_params\<rparr>))"

text \<open>
  \<open>PseudotimeKernel.compute_transition_matrix\<close>. The schemes' \<open>bias_knn\<close> and the base
  class's \<open>_compute_transition_matrix\<close> are not part of the sources: they are the
  parameters \<open>bias_knn\<close> and \<open>row_normalize\<close>, and either may raise. The normalised
  matrix is stored as a new sparse matrix object with a new buffer. Logging and the
  connectivity warning have no effect on the state. The result is the address of the
  receiver.
\<close>

type_synonym bias_knn_fn =
  "scheme \<Rightarrow> real list list \<Rightarrow> float64 list \<Rightarrow> int option \<Rightarrow> string \<Rightarrow> bool
     \<Rightarrow> (string \<rightharpoonup> pyval) \<Rightarrow> error + real list list"

definition compute_transition_matrix ::
  "bias_knn_fn \<Rightarrow> (bool \<Rightarrow> real list list \<Rightarrow> error + real list list) \<Rightarrow> heap \<Rightarrow> addr
     \<Rightarrow> threshold_scheme_arg \<Rightarrow> pyval \<Rightarrow> pyval \<Rightarrow> pyval \<Rightarrow> bool \<Rightarrow> int option \<Rightarrow> string
     \<Rightarrow> bool \<Rightarrow> (string \<rightharpoonup> pyval) \<Rightarrow> heap \<times> (error + addr)" where
  "compute_transition_matrix bias_knn row_normalize h r threshold_scheme frac_to_keep b nu
       check_irreducibility n_jobs backend show_progress_bar kwargs =
     (if r < length (kernels h) then
        (case get_n_neighbors (adata (kernels h ! r)) (conn (kernels h ! r)) of
           Inl e \<Rightarrow> (h, Inl e)
         | Inr n_neighs \<Rightarrow>
             (case select_scheme threshold_scheme frac_to_keep b nu n_neighs kwargs of
                Inl e \<Rightarrow> (h, Inl e)
              | Inr (scheme, scheme_str, kw) \<Rightarrow>
                  (case reuse_cache (kernels h ! r)
                          ([''dnorm'' \<mapsto> PBool False, ''scheme'' \<mapsto> PStr scheme_str] ++ kw) of
                     (True, k) \<Rightarrow> (h\<lparr>kernels := (kernels h)[r := k]\<rparr>, Inr r)
                   | (False, k) \<Rightarrow>
                       (let h1 = h\<lparr>kernels := (kernels h)[r := k]\<rparr>
                        in if pseudotime k < length (ndarrays h1) then
                             (case bias_knn scheme (conn k) (ndarrays h1 ! pseudotime k)
                                     n_jobs backend show_progress_bar kw of
                                Inl e \<Rightarrow> (h1, Inl e)
                              | Inr biased_conn \<Rightarrow>
                                  (case row_normalize check_irreducibility biased_conn of
                                     Inl e \<Rightarrow> (h1, Inl e)
                                   | Inr tm \<Rightarrow>
                                       (h1\<lparr>buffers := buffers h1 @ [tm],
                                           spmatrices := spmatrices h1 @ [\<lparr>data = length (buffers h1)\<rparr>],
                                           kernels := (kernels h1)
                                             [r := k\<lparr>transition_matrix := Some (length (spmatrices h1))\<rparr>]\<rparr>,
                                        Inr r)))
                           else (h1, Inl InvalidAddress)))))
      else (h, Inl InvalidAddress))"

subsection \<open>Copying\<close>

text \<open>
  \<open>copy.copy\<close> makes a shallow copy. Of an \<open>ndarray\<close> it is a new array with its own data
  (\<open>ndarray.__copy__\<close>). Of any other object it is a new object whose attributes are the
  same references: a sparse matrix object keeps its entries in arrays, so its shallow copy
  is a new matrix object on the same buffer. \<open>copy(None)\<close> is \<open>None\<close>. A dictionary of
  immutable values is held by value.
\<close>

definition copy_ndarray :: "heap \<Rightarrow> addr \<Rightarrow> heap \<times> (error + addr)" where
  "copy_ndarray h a =
     (if a < length (ndarrays h)
      then (h\<lparr>ndarrays := ndarrays h @ [ndarrays h ! a]\<rparr>, Inr (length (ndarrays h)))
      else (h, Inl InvalidAddress))"

definition copy_spmatrix :: "heap \<Rightarrow> addr option \<Rightarrow> heap \<times> (error + addr option)" where
  "copy_spmatrix h m =
     (case m of
        None \<Rightarrow> (h, Inr None)
      | Some a \<Rightarrow>
          if a < length (spmatrices h)
          then (h\<lparr>spmatrices := spmatrices h @ [spmatrices h ! a]\<rparr>,
                Inr (Some (length (spmatrices h))))
          else (h, Inl InvalidAddress))"

text \<open>
  \<open>PseudotimeKernel.copy\<close>: a new kernel is constructed on the same \<open>adata\<close> with the
  direction and the time key of the receiver (the constructor may raise), then its
  pseudotime, parameters, condition number and transition matrix are overwritten with
  copies of the receiver's.
\<close>

definition PseudotimeKernel_copy ::
  "(AnnData \<Rightarrow> error + real list list) \<Rightarrow> heap \<Rightarrow> addr \<Rightarrow> heap \<times> (error + addr)" where
  "PseudotimeKernel_copy base_read h r =
     (if r < length (kernels h) then
        (let self = kernels h ! r
         in case PseudotimeKernel_init base_read h (adata self) (backward self) (time_key self) of
              (h1, Inl e) \<Rightarrow> (h1, Inl e)
            | (h1, Inr pk) \<Rightarrow>
                (case copy_ndarray h1 (pseudotime self) of
                   (h2, Inl e) \<Rightarrow> (h2, Inl e)
                 | (h2, Inr pt) \<Rightarrow>
                     (case copy_spmatrix h2 (transition_matrix self) of
                        (h3, Inl e) \<Rightarrow> (h3, Inl e)
                      | (h3, Inr tm) \<Rightarrow>
                          (h3\<lparr>kernels := (kernels h3)
                                [pk := (kernels h3 ! pk)
                                   \<lparr>pseudotime := pt, params := params self,
                                    cond_num := cond_num self, transition_matrix := tm\<rparr>]\<rparr>,
                           Inr pk))))
      else (h, Inl InvalidAddress))"

text \<open>
  Two matrix objects share memory when they hold the same buffer. \<open>toarray\<close> reads the
  entries of a matrix object; \<open>imul\<close> is \<open>m.data *= c\<close>, which multiplies the stored
  entries of a matrix object in place.
\<close>

definition shares_memory :: "heap \<Rightarrow> addr \<Rightarrow> addr \<Rightarrow> bool" where
  "shares_memory h a a' \<longleftrightarrow> data (spmatrices h ! a) = data (spmatrices h ! a')"

definition toarray :: "heap \<Rightarrow> addr \<Rightarrow> real list list option" where
  "toarray h a =
     (if a < length (spmatrices h) \<and> data (spmatrices h ! a) < length (buffers h)
      then Some (buffers h ! data (spmatrices h ! a)) else None)"

definition imul :: "heap \<Rightarrow> addr \<Rightarrow> real \<Rightarrow> heap" where
  "imul h a c =
     (if a < length (spmatrices h) \<and> data (spmatrices h ! a) < length (buffers h)
      then h\<lparr>buffers := (buffers h)
             [data (spmatrices h ! a) :=
                map (map (\<lambda>x. x * c)) (buffers h ! data (spmatrices h ! a))]\<rparr>
      else h)"

section \<open>The estimator\<close>

text \<open>
  The estimators (\<open>CFLARE\<close>) are not part of the sources: only their tests are. What
  follows is modelled from the spec, with the tests for the names and the messages.
  A matrix is the list of its rows; its entries are exact reals, so a solver of the model
  has no rounding error.
\<close>

type_synonym matrix = "real list list"

text \<open>
  \<open>str\<close> of a natural number, in decimal, as an f-string prints a count, and the
  reading of a decimal numeral.
\<close>

definition digit_char :: "nat \<Rightarrow> char" where
  "digit_char d = ''0123456789'' ! (d mod 10)"

fun str_nat :: "nat \<Rightarrow> string" where
  "str_nat n =
     (if n < 10 then [digit_char n]
      else str_nat (n div 10) @ [digit_char (n mod 10)])"

declare str_nat.simps [simp del]


text \<open>
  Modelled from the spec: the Terminal-State Assignment is a categorical label per cell
  (one category per terminal state, \<open>None\<close> for an unassigned cell). The test builds it
  as \<open>StatesHolder(assignment=..., colors=...)\<close>; colours are left out, no claim
  depends on them. The estimator holds the transition matrix of its kernel, the cell
  identifiers, the terminal states once they exist, and the fate probabilities once they
  are computed.
\<close>

record StatesHolder =
  assignment :: "string option list"
  categories :: "string list"

record estimator =
  est_transition_matrix :: matrix
  obs_names :: "string list"
  term_states :: "StatesHolder option"
  fate_probabilities :: "matrix option"

subsection \<open>Fate probabilities\<close>

text \<open>
  Modelled from the spec: \<open>_solve_lin_system\<close> is not part of the sources. It solves
  \<open>(I - Q) X = S\<close> for \<open>X\<close>; the model is the direct solve, Gauss-Jordan elimination on the
  augmented matrix \<open>(I - Q | S)\<close> with a search for a non-zero pivot, in exact arithmetic.
  \<open>eliminate m c\<close> brings a row with a non-zero entry in column \<open>c\<close> to position \<open>c\<close>,
  scales it to pivot 1 and clears column \<open>c\<close> in every other row; it fails when rows
  \<open>c\<close> and below are all zero in that column.
\<close>

definition eliminate :: "matrix \<Rightarrow> nat \<Rightarrow> matrix option" where
  "eliminate m c =
     (case find (\<lambda>p. m ! p ! c \<noteq> 0) [c..<length m] of
        None \<Rightarrow> None
      | Some p \<Rightarrow>
          (let m1 = m[c := m ! p, p := m ! c];
               pivot = map (\<lambda>x. x / (m1 ! c ! c)) (m1 ! c)
           in Some (map (\<lambda>i. if i = c then pivot
                              else map2 (\<lambda>x y. x - (m1 ! i ! c) * y) (m1 ! i) pivot)
                      [0..<length m1])))"

fun gauss_jordan :: "matrix \<Rightarrow> nat list \<Rightarrow> matrix option" where
  "gauss_jordan m [] = Some m"
| "gauss_jordan m (c # cs) =
     (case eliminate m c of None \<Rightarrow> None | Some m' \<Rightarrow> gauss_jordan m' cs)"

definition solve_lin_system :: "matrix \<Rightarrow> matrix \<Rightarrow> error + matrix" where
  "solve_lin_system q s =
     (let n = length q;
          a = map (\<lambda>i. map (\<lambda>j. (if i = j then 1 else 0) - q ! i ! j) [0..<n]) [0..<n]
      in case gauss_jordan (map2 (@) a s) [0..<n] of
           None \<Rightarrow> Inl (RuntimeError ''The linear system is singular.'')
         | Some m \<Rightarrow> Inr (map (drop n) m))"

text \<open>
  Modelled from the spec: the validation after the solve is not part of the sources.
  Every row must sum to 1 within the relative tolerance \<open>1e-3\<close>, and no entry may be
  negative; a violation is an error whose message states the count of violating values.
  The test on negative entries comes first: the test fixture with two negative entries in
  a row that does not sum to 1 expects the message about negative values.
\<close>

definition count_negative :: "matrix \<Rightarrow> nat" where
  "count_negative fp = length (filter (\<lambda>x. x < 0) (concat fp))"

definition sums_to_1 :: "real list \<Rightarrow> bool" where
  "sums_to_1 row \<longleftrightarrow> \<bar>sum_list row - 1\<bar> \<le> 1 / 1000"

definition count_not_summing :: "matrix \<Rightarrow> nat" where
  "count_not_summing fp = length (filter (\<lambda>row. \<not> sums_to_1 row) fp)"

definition check_fate_probabilities :: "matrix \<Rightarrow> error + matrix" where
  "check_fate_probabilities fp =
     (if 0 < count_negative fp
      then Inl (ValueError (''`'' @ str_nat (count_negative fp) @ ''` value(s) are negative.''))
      else if 0 < count_not_summing fp
      then Inl (ValueError (''`'' @ str_nat (count_not_summing fp)
                  @ ''` value(s) do not sum to 1 (rtol=1e-3).''))
      else Inr fp)"

text \<open>
  Modelled from the spec: \<open>compute_fate_probabilities\<close> is not part of the sources.
  Without terminal states it is an error. The cells without a label are transient; \<open>Q\<close>
  is the transition matrix restricted to them, and column \<open>c\<close> of \<open>S\<close> sums, for each
  transient cell, its transitions into the cells of terminal state \<open>c\<close>. The solution
  gives the rows of the transient cells; a terminal cell gets the one-hot row of its own
  state. The matrix is validated and stored. The argument \<open>tol\<close> is the tolerance of the
  iterative solvers; the exact solve has no use for it.
\<close>

definition transient_cells :: "string option list \<Rightarrow> nat list" where
  "transient_cells a = filter (\<lambda>i. a ! i = None) [0..<length a]"

definition group_cells :: "string option list \<Rightarrow> string \<Rightarrow> nat list" where
  "group_cells a c = filter (\<lambda>i. a ! i = Some c) [0..<length a]"

definition embed_fate_probabilities :: "string option list \<Rightarrow> string list \<Rightarrow> matrix \<Rightarrow> matrix" where
  "embed_fate_probabilities a cats x =
     map (\<lambda>i. case a ! i of
                 None \<Rightarrow> x ! length (filter (\<lambda>j. a ! j = None) [0..<i])
               | Some c \<Rightarrow> map (\<lambda>c'. if c' = c then 1 else 0) cats)
       [0..<length a]"

definition compute_fate_probabilities :: "estimator \<Rightarrow> real \<Rightarrow> error + estimator" where
  "compute_fate_probabilities est tol =
     (case term_states est of
        None \<Rightarrow> Inl (RuntimeError ''Compute terminal states first.'')
      | Some ts \<Rightarrow>
          (let t = est_transition_matrix est;
               trans = transient_cells (assignment ts);
               q = map (\<lambda>i. map (\<lambda>j. t ! i ! j) trans) trans;
               s = map (\<lambda>i. map (\<lambda>c. sum_list (map (\<lambda>j. t ! i ! j) (group_cells (assignment ts) c)))
                              (categories ts)) trans
           in case solve_lin_system q s of
                Inl e \<Rightarrow> Inl e
              | Inr x \<Rightarrow>
                  (case check_fate_probabilities
                          (embed_fate_probabilities (assignment ts) (categories ts) x) of
                     Inl e \<Rightarrow> Inl e
                   | Inr fp \<Rightarrow> Inr (est\<lparr>fate_probabilities := Some fp\<rparr>))))"

text \<open>
  The matrix product; the rows of the cells without a label, as
  \<open>fate_probabilities[state_annotation.isna()]\<close> selects them; and \<open>np.allclose\<close> with
  an absolute tolerance only.
\<close>

definition matmul :: "matrix \<Rightarrow> matrix \<Rightarrow> matrix" where
  "matmul a b =
     map (\<lambda>row. map (\<lambda>j. sum_list (map (\<lambda>k. row ! k * b ! k ! j) [0..<length b]))
                  [0..<length (hd b)]) a"

definition isna_rows :: "string option list \<Rightarrow> matrix \<Rightarrow> matrix" where
  "isna_rows a fp = map snd (filter (\<lambda>(l, row). l = None) (zip a fp))"

definition allclose :: "real \<Rightarrow> matrix \<Rightarrow> matrix \<Rightarrow> bool" where
  "allclose atol x y \<longleftrightarrow> list_all2 (list_all2 (\<lambda>a b. \<bar>a - b\<bar> \<le> atol)) x y"

subsection \<open>Terminal states\<close>

text \<open>
  Modelled from the spec: \<open>set_terminal_states\<close> is not part of the sources. The manual
  override takes a mapping from state names to lists of cell identifiers and is the sole
  source of the new assignment: a cell carries the name of the state that lists it, any
  other cell is unassigned. (For a cell listed under several names the spec says nothing;
  the model takes the first.)
\<close>

definition set_terminal_states :: "estimator \<Rightarrow> (string \<times> string list) list \<Rightarrow> estimator" where
  "set_terminal_states est states =
     est\<lparr>term_states := Some
       \<lparr>assignment =
          map (\<lambda>c. map_option fst (find (\<lambda>(name, cells). c \<in> set cells) states)) (obs_names est),
        categories = map fst states\<rparr>\<rparr>"

text \<open>
  Modelled from the spec: \<open>rename_terminal_states\<close> is not part of the sources. It takes
  a mapping from old names to new names. Without terminal states it is an error; an old
  name that is not a category is an error listing the invalid names; names that collide
  after renaming are an error; otherwise the categories and the labels are renamed.
\<close>

definition rename :: "(string \<times> string) list \<Rightarrow> string \<Rightarrow> string" where
  "rename new_names c = (case map_of new_names c of None \<Rightarrow> c | Some n \<Rightarrow> n)"

definition join :: "string \<Rightarrow> string list \<Rightarrow> string" where
  "join sep xs = (case xs of [] \<Rightarrow> [] | y # ys \<Rightarrow> y @ concat (map (\<lambda>z. sep @ z) ys))"

definition rename_terminal_states ::
  "estimator \<Rightarrow> (string \<times> string) list \<Rightarrow> error + estimator" where
  "rename_terminal_states est new_names =
     (case term_states est of
        None \<Rightarrow> Inl (RuntimeError ''Compute terminal states first.'')
      | Some ts \<Rightarrow>
          (let invalid = filter (\<lambda>old. old \<notin> set (categories ts)) (map fst new_names);
               cats = map (rename new_names) (categories ts)
           in if invalid \<noteq> []
              then Inl (ValueError (''Invalid terminal states names: `['' @
                          join '', '' (map repr_str invalid) @ '']`.''))
              else if \<not> distinct cats
              then Inl (ValueError (''After renaming, terminal states will no longer be unique: `['' @
                          join '', '' (map repr_str cats) @ '']`.''))
              else Inr (est\<lparr>term_states := Some
                     \<lparr>assignment = map (map_option (rename new_names)) (assignment ts),
                      categories = cats\<rparr>\<rparr>)))"

section \<open>Example objects\<close>

definition example_kernel :: kernel where
  "example_kernel =
     \<lparr>adata = \<lparr>obs = [''dpt_pseudotime'' \<mapsto> [Num 1, Num 3, Num 2]],
               n_neighbors = Some (PInt 30)\<rparr>,
      backward = False, time_key = ''dpt_pseudotime'',
      conn = [[0, 1, 1], [1, 0, 1], [1, 1, 0]],
      pseudotime = 0, params = Map.empty, cond_num = None, transition_matrix = None\<rparr>"

definition example_heap :: heap where
  "example_heap =
     \<lparr>ndarrays = [[Num 1, Num 3, Num 2]], buffers = [], spmatrices = [],
      kernels = [example_kernel]\<rparr>"

definition example_bias_knn :: bias_knn_fn where
  "example_bias_knn scheme c pt n_jobs backend show_progress_bar kw = Inr c"

definition example_row_normalize :: "bool \<Rightarrow> real list list \<Rightarrow> error + real list list" where
  "example_row_normalize check_irreducibility m = Inr (map (\<lambda>row. map (\<lambda>x. x / sum_list row) row) m)"

definition example_heap_computed :: heap where
  "example_heap_computed =
     \<lparr>ndarrays = [[Num 1, Num 3, Num 2]],
      buffers = [[[0, 1/2, 1/2], [1/2, 0, 1/2], [1/2, 1/2, 0]]],
      spmatrices = [\<lparr>data = 0\<rparr>],
      kernels = [example_kernel
        \<lparr>params := [''dnorm'' \<mapsto> PBool False, ''scheme'' \<mapsto> PStr ''hard'',
                    ''frac_to_keep'' \<mapsto> PFloat (Num (3/10)), ''n_neighs'' \<mapsto> PInt 30],
         transition_matrix := Some 0\<rparr>]\<rparr>"

definition example_base_read :: "AnnData \<Rightarrow> error + real list list" where
  "example_base_read ad = Inr [[0, 1, 1], [1, 0, 1], [1, 1, 0]]"


definition example_heap_copied :: heap where
  "example_heap_copied = fst (PseudotimeKernel_copy example_base_read example_heap_computed 0)"

text \<open>
  The store after the construction, in an empty store, of a forward kernel on an \<open>adata\<close>
  whose pseudotime column is \<open>col\<close>, every cell a neighbour of every cell.
\<close>

definition empty_heap :: heap where
  "empty_heap = \<lparr>ndarrays = [], buffers = [], spmatrices = [], kernels = []\<rparr>"

definition example_heap_on :: "float64 list \<Rightarrow> heap" where
  "example_heap_on col =
     fst (PseudotimeKernel_init (\<lambda>ad. Inr (map (\<lambda>x. map (\<lambda>y. 1) col) col)) empty_heap
            \<lparr>obs = [''dpt_pseudotime'' \<mapsto> col], n_neighbors = None\<rparr> False ''dpt_pseudotime'')"

text \<open>
  The reference scenario of \<open>test_compare_fate_probabilities_with_reference\<close>: the
  12-state absorbing chain, its terminal states at cells 7 and 10, the reference values
  of the test, and the exact fate probabilities.
\<close>

definition reference_transition_matrix :: matrix where
  "reference_transition_matrix =
    [[0, 8/10, 2/10, 0, 0, 0, 0, 0, 0, 0, 0, 0],
     [2/10, 0, 6/10, 2/10, 0, 0, 0, 0, 0, 0, 0, 0],
     [6/10, 2/10, 0, 2/10, 0, 0, 0, 0, 0, 0, 0, 0],
     [0, 5/100, 5/100, 0, 45/100, 45/100, 0, 0, 0, 0, 0, 0],
     [0, 0, 0, 25/100, 0, 25/100, 4/10, 0, 0, 1/10, 0, 0],
     [0, 0, 0, 25/100, 25/100, 0, 1/10, 0, 0, 4/10, 0, 0],
     [0, 0, 0, 0, 5/100, 5/100, 0, 7/10, 2/10, 0, 0, 0],
     [0, 0, 0, 0, 0, 0, 0, 1, 0, 0, 0, 0],
     [0, 0, 0, 0, 0, 0, 8/10, 2/10, 0, 0, 0, 0],
     [0, 0, 0, 0, 5/100, 5/100, 0, 0, 0, 0, 7/10, 2/10],
     [0, 0, 0, 0, 0, 0, 0, 0, 0, 0, 1, 0],
     [0, 0, 0, 0, 0, 0, 0, 0, 0, 8/10, 2/10, 0]]"

definition fate_probabilities_reference :: matrix where
  "fate_probabilities_reference =
    [[5/10, 5/10],
     [5/10, 5/10],
     [5/10, 5/10],
     [5/10, 5/10],
     [60571429/100000000, 39428571/100000000],
     [39428571/100000000, 60571429/100000000],
     [94047619/100000000, 5952381/100000000],
     [95238095/100000000, 4761905/100000000],
     [5952381/100000000, 94047619/100000000],
     [4761905/100000000, 95238095/100000000]]"

definition reference_states :: StatesHolder where
  "reference_states =
     \<lparr>assignment = [None, None, None, None, None, None, None, Some ''terminal_1'',
                     None, None, Some ''terminal_2'', None],
      categories = [''terminal_1'', ''terminal_2'']\<rparr>"

definition reference_estimator :: estimator where
  "reference_estimator =
     \<lparr>est_transition_matrix = reference_transition_matrix,
      obs_names = map str_nat [0..<12],
      term_states = Some reference_states,
      fate_probabilities = None\<rparr>"

definition reference_fate_probabilities :: matrix where
  "reference_fate_probabilities =
    [[1/2, 1/2], [1/2, 1/2], [1/2, 1/2], [1/2, 1/2], [106/175, 69/175], [69/175, 106/175],
     [79/84, 5/84], [1, 0], [20/21, 1/21], [5/84, 79/84], [0, 1], [1/21, 20/21]]"

section \<open>Properties of construction\<close>

lemma foldl_fmax_NaN: "foldl fmax NaN xs = NaN"
  by (induction xs) simp_all

lemma foldl_fmax_mem_NaN: "NaN \<in> set xs \<Longrightarrow> foldl fmax x xs = NaN"
proof (induction xs arbitrary: x)
  case Nil
  then show ?case by simp
next
  case (Cons y ys)
  show ?case
  proof (cases "y = NaN")
    case True
    have "fmax x NaN = NaN" by (cases x) simp_all
    with True show ?thesis by (simp add: foldl_fmax_NaN)
  next
    case False
    with Cons.prems have "NaN \<in> set ys" by simp
    then show ?thesis by (simp add: Cons.IH)
  qed
qed

lemma np_max_mem_NaN: "NaN \<in> set xs \<Longrightarrow> np_max xs = Inr NaN"
proof (cases xs)
  case Nil
  assume "NaN \<in> set xs"
  with Nil show ?thesis by simp
next
  case (Cons y ys)
  assume mem: "NaN \<in> set xs"
  show ?thesis
  proof (cases "y = NaN")
    case True
    with Cons show ?thesis by (simp add: foldl_fmax_NaN)
  next
    case False
    with mem Cons have "NaN \<in> set ys" by simp
    with Cons show ?thesis by (simp add: foldl_fmax_mem_NaN)
  qed
qed

lemma list_ex_isnan_iff: "list_ex isnan xs \<longleftrightarrow> NaN \<in> set xs"
proof -
  have "isnan x \<longleftrightarrow> x = NaN" for x by (cases x) simp_all
  then show ?thesis by (auto simp: list_ex_iff)
qed

lemma read_from_adata_NaN:
  assumes "base_read ad = Inr c" and "obs ad tk = Some col" and "NaN \<in> set col"
  shows "read_from_adata base_read ad bw tk =
           Inl (ValueError ''Encountered NaN values in pseudotime.'')"
proof (cases bw)
  case False
  with assms show ?thesis
    by (simp add: read_from_adata_def list_ex_isnan_iff)
next
  case True
  from assms(3) have m: "np_max col = Inr NaN" by (rule np_max_mem_NaN)
  from assms(3) have "NaN \<in> set (map (fsub NaN) col)" by force
  with True assms(1,2) m show ?thesis
    by (simp add: read_from_adata_def list_ex_isnan_iff del: set_map)
qed

lemma repr_char_plain:
  assumes "plain_char c" and "q = CHR 0x27 \<or> q = CHR 0x22"
  shows "repr_char q c = [c]"
proof -
  from assms(1) have lo: "0x20 \<le> (of_char c :: nat)" and hi: "(of_char c :: nat) < 0x7F"
    and ne: "c \<noteq> CHR 0x5C" "c \<noteq> CHR 0x27" "c \<noteq> CHR 0x22"
    by (simp_all add: plain_char_def)
  from lo have a: "c \<noteq> CHR 0x0A" by (rule contrapos_pn) simp
  from lo have b: "c \<noteq> CHR 0x0D" by (rule contrapos_pn) simp
  from lo have d: "c \<noteq> CHR 0x09" by (rule contrapos_pn) simp
  from assms(2) ne have e: "c \<noteq> q" by blast
  have f: "\<not> ((of_char c :: nat) < 0x20 \<or> 0x7F \<le> (of_char c :: nat))"
    using lo hi by linarith
  show ?thesis
    unfolding repr_char_def using ne(1) a b d e f by (simp only: if_False)
qed

lemma repr_str_plain:
  assumes "\<forall>c \<in> set s. plain_char c"
  shows "repr_str s = CHR 0x27 # s @ [CHR 0x27]"
proof -
  from assms have q: "\<not> (CHR 0x27 \<in> set s \<and> CHR 0x22 \<notin> set s)"
    by (auto simp: plain_char_def)
  from assms have "concat (map (repr_char (CHR 0x27)) s) = s"
    by (induction s) (simp_all add: repr_char_plain)
  with q show ?thesis by (simp add: repr_str_def Let_def)
qed

text \<open>
  C4. Constructing a PseudotimeKernel fails before any transition matrix is computed:
  when the time key is not a column of \<open>adata.obs\<close> the constructor raises, and the
  exception is the KeyError whose message holds the \<open>repr\<close> of the key (the key itself
  between quotes, for a key of plain characters) once the base class has read the
  connectivities; when the pseudotime column holds a NaN it raises, and the exception is
  the ValueError, in either direction. In both cases the store is unchanged: no kernel
  and no transition matrix exist.
\<close>

theorem PseudotimeKernel_init_fails:
  "(obs ad tk = None \<longrightarrow>
      (\<exists>e. PseudotimeKernel_init base_read h ad bw tk = (h, Inl e)) \<and>
      (\<forall>c. base_read ad = Inr c \<longrightarrow>
         PseudotimeKernel_init base_read h ad bw tk =
           (h, Inl (KeyError
              (''Could not find time key in `adata.obs['' @ repr_str tk @ '']`.''))))) \<and>
   (\<forall>col. obs ad tk = Some col \<longrightarrow> NaN \<in> set col \<longrightarrow>
      (\<exists>e. PseudotimeKernel_init base_read h ad bw tk = (h, Inl e)) \<and>
      (\<forall>c. base_read ad = Inr c \<longrightarrow>
         PseudotimeKernel_init base_read h ad bw tk =
           (h, Inl (ValueError ''Encountered NaN values in pseudotime.'')))) \<and>
   ((\<forall>c \<in> set tk. plain_char c) \<longrightarrow> repr_str tk = CHR 0x27 # tk @ [CHR 0x27])"
proof (intro conjI impI allI)
  assume "obs ad tk = None"
  then show "\<exists>e. PseudotimeKernel_init base_read h ad bw tk = (h, Inl e)"
    by (cases "base_read ad") (simp_all add: PseudotimeKernel_init_def read_from_adata_def)
next
  fix c
  assume "obs ad tk = None" and "base_read ad = Inr c"
  then show "PseudotimeKernel_init base_read h ad bw tk =
      (h, Inl (KeyError (''Could not find time key in `adata.obs['' @ repr_str tk @ '']`.'')))"
    by (simp add: PseudotimeKernel_init_def read_from_adata_def)
next
  fix col
  assume col: "obs ad tk = Some col" "NaN \<in> set col"
  show "\<exists>e. PseudotimeKernel_init base_read h ad bw tk = (h, Inl e)"
  proof (cases "base_read ad")
    case (Inl e)
    then show ?thesis by (simp add: PseudotimeKernel_init_def read_from_adata_def)
  next
    case (Inr c)
    with col show ?thesis
      by (simp add: PseudotimeKernel_init_def read_from_adata_NaN)
  qed
next
  fix col c
  assume "obs ad tk = Some col" "NaN \<in> set col" "base_read ad = Inr c"
  then show "PseudotimeKernel_init base_read h ad bw tk =
      (h, Inl (ValueError ''Encountered NaN values in pseudotime.''))"
    by (simp add: PseudotimeKernel_init_def read_from_adata_NaN)
next
  assume "\<forall>c \<in> set tk. plain_char c"
  then show "repr_str tk = CHR 0x27 # tk @ [CHR 0x27]" by (rule repr_str_plain)
qed

theorem PseudotimeKernel_init_fails_witness:
  "PseudotimeKernel_init (\<lambda>_. Inr []) \<lparr>ndarrays = [], buffers = [], spmatrices = [], kernels = []\<rparr>
     \<lparr>obs = Map.empty, n_neighbors = None\<rparr> False ''dpt_pseudotime''
     = (\<lparr>ndarrays = [], buffers = [], spmatrices = [], kernels = []\<rparr>,
        Inl (KeyError (''Could not find time key in `adata.obs['' @ [CHR 0x27] @ ''dpt_pseudotime''
               @ [CHR 0x27] @ '']`.'')))
   \<and> PseudotimeKernel_init (\<lambda>_. Inr []) \<lparr>ndarrays = [], buffers = [], spmatrices = [], kernels = []\<rparr>
     \<lparr>obs = [''dpt_pseudotime'' \<mapsto> [Num 0, NaN, Num 1]], n_neighbors = None\<rparr> True ''dpt_pseudotime''
     = (\<lparr>ndarrays = [], buffers = [], spmatrices = [], kernels = []\<rparr>,
        Inl (ValueError ''Encountered NaN values in pseudotime.''))"
  using PseudotimeKernel_init_fails [of "\<lparr>obs = Map.empty, n_neighbors = None\<rparr>" "''dpt_pseudotime''"
          "\<lambda>_. Inr []" "\<lparr>ndarrays = [], buffers = [], spmatrices = [], kernels = []\<rparr>" False]
        PseudotimeKernel_init_fails [of "\<lparr>obs = [''dpt_pseudotime'' \<mapsto> [Num 0, NaN, Num 1]], n_neighbors = None\<rparr>"
          "''dpt_pseudotime''" "\<lambda>_. Inr []" "\<lparr>ndarrays = [], buffers = [], spmatrices = [], kernels = []\<rparr>" True]
  by (simp add: plain_char_def)


section \<open>Properties of float64 arithmetic\<close>

lemma round_even_of_int: "round_even (of_int n) = n"
  by (simp add: round_even_def)

lemma round_even_mono:
  assumes "x \<le> y" shows "round_even x \<le> round_even y"
proof (cases "\<lfloor>x\<rfloor> = \<lfloor>y\<rfloor>")
  case True
  with assms show ?thesis unfolding round_even_def by auto
next
  case False
  with assms have "\<lfloor>x\<rfloor> < \<lfloor>y\<rfloor>" using floor_mono [OF assms] by linarith
  moreover have "round_even x \<le> \<lfloor>x\<rfloor> + 1" unfolding round_even_def by auto
  moreover have "\<lfloor>y\<rfloor> \<le> round_even y" unfolding round_even_def by auto
  ultimately show ?thesis by linarith
qed

lemma round_even_le_int: "x \<le> of_int n \<Longrightarrow> round_even x \<le> n"
  using round_even_mono [of x "of_int n"] by (simp add: round_even_of_int)

lemma round_even_ge_int: "of_int n \<le> x \<Longrightarrow> n \<le> round_even x"
  using round_even_mono [of "of_int n" x] by (simp add: round_even_of_int)

lemma quantum_pos: "0 < quantum x"
  by (simp add: quantum_def)

lemma round64_0: "round64 0 = Num 0"
  by (simp add: round64_def)

lemma round64_not_NaN: "round64 x \<noteq> NaN"
  by (simp add: round64_def)

lemma mant_nonneg:
  assumes "0 \<le> x" shows "0 \<le> mant x"
proof -
  from assms have "0 \<le> x / quantum x" using quantum_pos [of x] by simp
  then have "round_even 0 \<le> round_even (x / quantum x)" by (rule round_even_mono)
  then have "0 \<le> round_even (x / quantum x)" by (simp add: round_even_def)
  then show ?thesis using quantum_pos [of x] by (simp add: mant_def)
qed

lemma round64_nonneg:
  assumes "0 \<le> x" shows "fle (Num 0) (round64 x)"
  using mant_nonneg [OF assms] by (auto simp: round64_def)

lemma expo_upper: assumes "0 < x" shows "x < 2 powr of_int (expo x + 1)"
proof -
  have "x < 2 powr (of_int \<lfloor>log 2 x\<rfloor> + 1)"
    using assms floor_log_eq_powr_iff [of x 2 "\<lfloor>log 2 x\<rfloor>"] by simp
  also have "\<dots> \<le> 2 powr of_int (expo x + 1)"
    using assms by (intro powr_mono) (simp_all add: expo_def)
  finally show ?thesis .
qed

lemma expo_lower: assumes "0 < x" and "- 1022 < expo x" shows "2 powr of_int (expo x) \<le> x"
proof -
  from assms have "expo x = \<lfloor>log 2 x\<rfloor>" by (simp add: expo_def max_def split: if_splits)
  then show ?thesis
    using assms floor_log_eq_powr_iff [of x 2 "\<lfloor>log 2 x\<rfloor>"] by simp
qed

lemma expo_mono: assumes "0 < x" and "x \<le> y" shows "expo x \<le> expo y"
proof -
  from assms have "log 2 x \<le> log 2 y" by simp
  then have "\<lfloor>log 2 x\<rfloor> \<le> \<lfloor>log 2 y\<rfloor>" by (rule floor_mono)
  with assms show ?thesis by (simp add: expo_def)
qed

lemma mant_mono:
  assumes "0 < x" and "x \<le> y" shows "mant x \<le> mant y"
proof (cases "expo x = expo y")
  case True
  then have q: "quantum x = quantum y" by (simp add: quantum_def)
  from assms have "x / quantum y \<le> y / quantum y"
    using quantum_pos [of y] by (simp add: divide_right_mono)
  then have "round_even (x / quantum y) \<le> round_even (y / quantum y)" by (rule round_even_mono)
  then show ?thesis using quantum_pos [of y] by (simp add: mant_def q)
next
  case False
  with expo_mono [OF assms] have lt: "expo x < expo y" by simp
  from assms have y: "0 < y" by simp
  have qx: "quantum x * 2 ^ 53 = 2 powr of_int (expo x + 1)"
  proof -
    have "(2::real) powr of_int (expo x + 1) = 2 powr (of_int (expo x - 52) + 53)"
      by (simp add: add.commute)
    also have "\<dots> = 2 powr of_int (expo x - 52) * 2 powr 53" by (rule powr_add)
    finally show ?thesis by (simp add: quantum_def)
  qed
  have qy: "quantum y * 2 ^ 52 = 2 powr of_int (expo y)"
  proof -
    have "(2::real) powr of_int (expo y) = 2 powr (of_int (expo y - 52) + 52)"
      by (simp add: add.commute)
    also have "\<dots> = 2 powr of_int (expo y - 52) * 2 powr 52" by (rule powr_add)
    finally show ?thesis by (simp add: quantum_def)
  qed
  have "x / quantum x \<le> 2 ^ 53"
    using expo_upper [OF assms(1)] quantum_pos [of x] qx
    by (simp add: field_simps)
  then have "x / quantum x \<le> of_int (2 ^ 53)" by (simp only: of_int_power of_int_numeral)
  then have "round_even (x / quantum x) \<le> 2 ^ 53" by (rule round_even_le_int)
  then have "(of_int (round_even (x / quantum x)) :: real) \<le> of_int (2 ^ 53)"
    by (simp only: of_int_le_iff)
  then have "of_int (round_even (x / quantum x)) \<le> (2 ^ 53 :: real)"
    by (simp only: of_int_power of_int_numeral)
  then have "mant x \<le> 2 ^ 53 * quantum x"
    using quantum_pos [of x] by (simp add: mant_def)
  also have "\<dots> = 2 powr of_int (expo x + 1)" using qx by (simp add: mult.commute)
  also have "\<dots> \<le> 2 powr of_int (expo y)" using lt by (intro powr_mono) simp_all
  finally have 1: "mant x \<le> 2 powr of_int (expo y)" .
  from lt have "- 1022 < expo y" by (simp add: expo_def)
  from expo_lower [OF y this] have "2 ^ 52 \<le> y / quantum y"
    using quantum_pos [of y] qy by (simp add: field_simps)
  then have "of_int (2 ^ 52) \<le> y / quantum y" by (simp only: of_int_power of_int_numeral)
  then have "2 ^ 52 \<le> round_even (y / quantum y)" by (rule round_even_ge_int)
  then have "(of_int (2 ^ 52) :: real) \<le> of_int (round_even (y / quantum y))"
    by (simp only: of_int_le_iff)
  then have "(2 ^ 52 :: real) \<le> of_int (round_even (y / quantum y))"
    by (simp only: of_int_power of_int_numeral)
  then have "2 ^ 52 * quantum y \<le> mant y"
    using quantum_pos [of y] by (simp add: mant_def)
  with qy have 2: "2 powr of_int (expo y) \<le> mant y" by (simp add: mult.commute)
  from 1 2 show ?thesis by linarith
qed

lemma round64_mono_nonneg:
  assumes "0 \<le> x" and "x \<le> y" shows "fle (round64 x) (round64 y)"
proof (cases "x = 0")
  case True
  with assms round64_nonneg [of y] show ?thesis by (simp add: round64_0)
next
  case False
  with assms have x: "0 < x" and y: "y \<noteq> 0" by auto
  from mant_mono [OF x assms(2)] show ?thesis
    using False y by (auto simp: round64_def)
qed

lemma quantum_normal:
  assumes "2 powr of_int k \<le> \<bar>x\<bar>" and "\<bar>x\<bar> < 2 powr of_int (k + 1)" and "- 1022 \<le> k"
  shows "quantum x = 2 powr of_int (k - 52)"
proof -
  from assms(1) have "0 < \<bar>x\<bar>" using powr_gt_zero [of 2 "of_int k"] by linarith
  with assms(1,2) have "\<lfloor>log 2 \<bar>x\<bar>\<rfloor> = k"
    using floor_log_eq_powr_iff [of "\<bar>x\<bar>" 2 k] by simp
  with assms(3) show ?thesis by (simp add: quantum_def expo_def)
qed

lemma small_no_overflow: "\<bar>y\<bar> \<le> 4 \<Longrightarrow> \<not> 2 ^ 1024 \<le> y \<and> \<not> y \<le> - (2 ^ 1024 :: real)"
proof -
  assume a: "\<bar>y\<bar> \<le> 4"
  have "(2::real) ^ 2 < 2 ^ 1024" by (rule power_strict_increasing) simp_all
  then have "(4::real) < 2 ^ 1024" by simp
  with a show ?thesis by linarith
qed

text \<open>
  The rounding of a number of magnitude in \<open>[2\<^sup>k, 2\<^sup>k\<^sup>+\<^sup>1)\<close>, for evaluation on concrete numbers.
\<close>

lemma round64_normal:
  assumes "2 powr of_int k \<le> \<bar>x\<bar>" and "\<bar>x\<bar> < 2 powr of_int (k + 1)" and "- 1022 \<le> k"
    and "y = of_int (round_even (x / 2 powr of_int (k - 52))) * 2 powr of_int (k - 52)"
    and "\<bar>y\<bar> \<le> 4"
  shows "round64 x = Num y"
proof -
  from assms(1) have "x \<noteq> 0" using powr_gt_zero [of 2 "of_int k"] by auto
  moreover note quantum_normal [OF assms(1,2,3)] small_no_overflow [OF assms(5)]
  ultimately show ?thesis using assms(4) by (simp add: round64_def mant_def)
qed

lemma round64_1: "round64 1 = Num 1"
  by (rule round64_normal [where k = 0]) (simp_all add: round_even_def powr_neg_numeral)

lemma round64_2: "round64 2 = Num 2"
  by (rule round64_normal [where k = 1]) (simp_all add: round_even_def powr_neg_numeral)

text \<open>
  The subtractions met on the arrays \<open>[0.1, 0.3, 1.0]\<close> and \<open>[0.0, 0.1, 1.0]\<close>. The binary64
  number of the literal \<open>0.1\<close> is \<open>3602879701896397 / 2\<^sup>5\<^sup>5\<close>, that of \<open>0.3\<close> is
  \<open>5404319552844595 / 2\<^sup>5\<^sup>4\<close>.
\<close>

lemma round64_1_sub_01:
  "round64 (1 - 3602879701896397 / 36028797018963968) = Num (8106479329266893 / 9007199254740992)"
  by (rule round64_normal [where k = "- 1"]) (simp_all add: round_even_def powr_neg_numeral)

lemma round64_1_sub_03:
  "round64 (1 - 5404319552844595 / 18014398509481984) = Num (3152519739159347 / 4503599627370496)"
  by (rule round64_normal [where k = "- 1"]) (simp_all add: round_even_def powr_neg_numeral)

lemma round64_09_sub_07:
  "round64 (8106479329266893 / 9007199254740992 - 3152519739159347 / 4503599627370496)
   = Num (1801439850948199 / 9007199254740992)"
  by (rule round64_normal [where k = "- 3"]) (simp_all add: round_even_def powr_neg_numeral)

lemma round64_03_sub_01:
  "round64 (5404319552844595 / 18014398509481984 - 3602879701896397 / 36028797018963968)
   = Num (7205759403792793 / 36028797018963968)"
  by (rule round64_normal [where k = "- 3"]) (simp_all add: round_even_def powr_neg_numeral)

lemma round64_09:
  "round64 (8106479329266893 / 9007199254740992) = Num (8106479329266893 / 9007199254740992)"
  by (rule round64_normal [where k = "- 1"]) (simp_all add: round_even_def powr_neg_numeral)

lemma round64_1_sub_09:
  "round64 (1 - 8106479329266893 / 9007199254740992) = Num (900719925474099 / 9007199254740992)"
  by (rule round64_normal [where k = "- 4"]) (simp_all add: round_even_def powr_neg_numeral)

lemma fsub_NaN_right: "fsub x NaN = NaN"
  by (cases x) simp_all

lemma fsub_nonneg: "fle b a \<Longrightarrow> fsub a b \<noteq> NaN \<Longrightarrow> fle (Num 0) (fsub a b)"
  by (cases a; cases b) (simp_all add: round64_nonneg)

lemma fsub_self: "fsub a a \<noteq> NaN \<Longrightarrow> fsub a a = Num 0"
  by (cases a) (simp_all add: round64_0)

lemma feq_eq: "feq x y \<Longrightarrow> x = y \<and> y \<noteq> NaN"
  by (cases x; cases y) simp_all

lemma array_equal_eq: "array_equal xs ys \<Longrightarrow> xs = ys \<and> NaN \<notin> set ys"
  unfolding array_equal_def
  by (induction xs ys rule: list_all2_induct) (auto dest: feq_eq)

lemma fle_refl: "x \<noteq> NaN \<Longrightarrow> fle x x"
  by (cases x) simp_all

lemma fle_trans: "fle a b \<Longrightarrow> fle b c \<Longrightarrow> fle a c"
  by (cases a; cases b; cases c) simp_all

lemma fmax_cases:
  "a \<noteq> NaN \<Longrightarrow> b \<noteq> NaN \<Longrightarrow> (fmax a b = a \<or> fmax a b = b) \<and> fle a (fmax a b) \<and> fle b (fmax a b)"
  by (cases a; cases b) (simp_all add: max_def)

lemma foldl_fmax_bound:
  "NaN \<notin> set (x # xs) \<Longrightarrow>
     foldl fmax x xs \<in> set (x # xs) \<and> (\<forall>y \<in> set (x # xs). fle y (foldl fmax x xs))"
proof (induction xs arbitrary: x)
  case Nil
  then show ?case by (simp add: fle_refl)
next
  case (Cons a xs)
  from Cons.prems have x: "x \<noteq> NaN" and a: "a \<noteq> NaN" and xs: "NaN \<notin> set xs" by auto
  note f = fmax_cases [OF x a]
  from f x a have "fmax x a \<noteq> NaN" by auto
  with xs have "NaN \<notin> set (fmax x a # xs)" by simp
  from Cons.IH [OF this] have
    m: "foldl fmax (fmax x a) xs \<in> set (fmax x a # xs)"
    and b: "\<forall>y \<in> set (fmax x a # xs). fle y (foldl fmax (fmax x a) xs)" by simp_all
  from m f have 1: "foldl fmax x (a # xs) \<in> set (x # a # xs)" by auto
  from b have top: "fle (fmax x a) (foldl fmax (fmax x a) xs)" by simp
  from f top have "fle x (foldl fmax (fmax x a) xs)" "fle a (foldl fmax (fmax x a) xs)"
    by (blast intro: fle_trans)+
  with b have 2: "\<forall>y \<in> set (x # a # xs). fle y (foldl fmax x (a # xs))" by simp
  from 1 2 show ?case by simp
qed

lemma np_max_bound:
  "np_max xs = Inr m \<Longrightarrow> NaN \<notin> set xs \<Longrightarrow> m \<in> set xs \<and> (\<forall>y \<in> set xs. fle y m)"
  using foldl_fmax_bound by (cases xs) auto

lemma isfinite_Num: "isfinite x \<Longrightarrow> \<exists>a. x = Num a"
  by (cases x) simp_all

lemma fsub_reverses:
  assumes "fle (Num a) (Num b)" and "fle (Num b) (Num M)"
  shows "fle (fsub (Num M) (Num b)) (fsub (Num M) (Num a))"
  using assms round64_mono_nonneg [of "M - b" "M - a"] by simp

section \<open>Properties of inversion\<close>

lemma invert_ok:
  assumes "r < length (kernels h)"
    and "pseudotime (kernels h ! r) < length (ndarrays h)"
    and "np_max (ndarrays h ! pseudotime (kernels h ! r)) = Inr m"
  shows "invert h r =
    (h\<lparr>ndarrays := ndarrays h @ [map (fsub m) (ndarrays h ! pseudotime (kernels h ! r))],
       kernels := (kernels h)[r := (kernels h ! r)\<lparr>backward := \<not> backward (kernels h ! r),
                                                  pseudotime := length (ndarrays h)\<rparr>]\<rparr>,
     Inr r)"
  using assms by (simp add: invert_def Kernel_invert_def Let_def)

lemma np_max_nonempty: "pt \<noteq> [] \<Longrightarrow> \<exists>m. np_max pt = Inr m"
  by (cases pt) simp_all

lemma kernel_pseudotime_invert:
  assumes "r < length (kernels h)"
    and "pseudotime (kernels h ! r) < length (ndarrays h)"
    and "np_max (ndarrays h ! pseudotime (kernels h ! r)) = Inr m"
  shows "kernel_pseudotime (fst (invert h r)) r =
           Some (map (fsub m) (ndarrays h ! pseudotime (kernels h ! r)))"
  using assms by (simp add: invert_ok kernel_pseudotime_def)

lemma example_heap_on_eq:
  "NaN \<notin> set col \<Longrightarrow> example_heap_on col =
     \<lparr>ndarrays = [col], buffers = [], spmatrices = [],
      kernels = [\<lparr>adata = \<lparr>obs = [''dpt_pseudotime'' \<mapsto> col], n_neighbors = None\<rparr>,
                  backward = False, time_key = ''dpt_pseudotime'',
                  conn = map (\<lambda>x. map (\<lambda>y. 1) col) col,
                  pseudotime = 0, params = Map.empty, cond_num = None,
                  transition_matrix = None\<rparr>]\<rparr>"
  by (simp add: example_heap_on_def PseudotimeKernel_init_def read_from_adata_def
        empty_heap_def list_ex_isnan_iff)

lemma invert_example_heap_on:
  assumes "NaN \<notin> set col" and "np_max col = Inr m"
  shows "kernel_pseudotime (example_heap_on col) 0 = Some col"
    and "snd (invert (example_heap_on col) 0) = Inr 0"
    and "kernel_pseudotime (fst (invert (example_heap_on col) 0)) 0 = Some (map (fsub m) col)"
    and "kernel_pseudotime (fst (invert (fst (invert (example_heap_on col) 0)) 0)) 0 =
           (case np_max (map (fsub m) col) of
              Inl e \<Rightarrow> Some (map (fsub m) col)
            | Inr m' \<Rightarrow> Some (map (fsub m') (map (fsub m) col)))"
  using assms
  by (simp_all add: example_heap_on_eq kernel_pseudotime_def invert_def Kernel_invert_def Let_def
        split: sum.splits)

text \<open>
  C6, as amended. Inverting a PseudotimeKernel whose pseudotime array is not empty returns
  the address of the receiver; no kernel is allocated and no other kernel changes; the
  direction of the receiver is toggled; its pseudotime becomes \<open>np.max(old) - old\<close>, the
  float64 difference element by element. Without a NaN the maximum is an element of the
  array that is at least every element. For finite values the order is reversed: where the
  old value of cell \<open>i\<close> was at most that of cell \<open>j\<close>, the new value of \<open>j\<close> is at most
  that of \<open>i\<close> (rounding can make them equal). The toggle itself is the base class's,
  modelled from the spec.
\<close>

theorem invert_in_place:
  assumes "r < length (kernels h)"
    and "pseudotime (kernels h ! r) < length (ndarrays h)"
    and "ndarrays h ! pseudotime (kernels h ! r) = pt"
    and "pt \<noteq> []"
  shows "snd (invert h r) = Inr r \<and>
    length (kernels (fst (invert h r))) = length (kernels h) \<and>
    (\<forall>r' < length (kernels h). r' \<noteq> r \<longrightarrow> kernels (fst (invert h r)) ! r' = kernels h ! r') \<and>
    backward (kernels (fst (invert h r)) ! r) = (\<not> backward (kernels h ! r)) \<and>
    (\<exists>m. np_max pt = Inr m \<and>
       kernel_pseudotime (fst (invert h r)) r = Some (map (fsub m) pt) \<and>
       (NaN \<notin> set pt \<longrightarrow> m \<in> set pt \<and> (\<forall>x \<in> set pt. fle x m)) \<and>
       ((\<forall>x \<in> set pt. isfinite x) \<longrightarrow>
          (\<forall>i < length pt. \<forall>j < length pt. fle (pt ! i) (pt ! j) \<longrightarrow>
             fle (fsub m (pt ! j)) (fsub m (pt ! i)))))"
proof -
  from assms(4) obtain m where m: "np_max pt = Inr m" using np_max_nonempty by blast
  with assms(3) have m': "np_max (ndarrays h ! pseudotime (kernels h ! r)) = Inr m" by simp
  note eq = invert_ok [OF assms(1,2) m']
  have 1: "snd (invert h r) = Inr r" by (simp add: eq)
  have 2: "length (kernels (fst (invert h r))) = length (kernels h)" by (simp add: eq)
  have 3: "\<forall>r' < length (kernels h). r' \<noteq> r \<longrightarrow> kernels (fst (invert h r)) ! r' = kernels h ! r'"
    by (simp add: eq)
  have 4: "backward (kernels (fst (invert h r)) ! r) = (\<not> backward (kernels h ! r))"
    using assms(1) by (simp add: eq)
  have 5: "kernel_pseudotime (fst (invert h r)) r = Some (map (fsub m) pt)"
    using kernel_pseudotime_invert [OF assms(1,2) m'] assms(3) by simp
  have 6: "m \<in> set pt \<and> (\<forall>x \<in> set pt. fle x m)" if "NaN \<notin> set pt"
    using np_max_bound [OF m that] .
  have 7: "fle (fsub m (pt ! j)) (fsub m (pt ! i))"
    if fin: "\<forall>x \<in> set pt. isfinite x" and i: "i < length pt" and j: "j < length pt"
      and le: "fle (pt ! i) (pt ! j)" for i j
  proof -
    from fin have "NaN \<notin> set pt" by auto
    from 6 [OF this] have mem: "m \<in> set pt" and ub: "\<forall>x \<in> set pt. fle x m" by simp_all
    from fin mem obtain M where M: "m = Num M" using isfinite_Num by blast
    from fin i obtain a where a: "pt ! i = Num a" using isfinite_Num by force
    from fin j obtain b where b: "pt ! j = Num b" using isfinite_Num by force
    from ub j b M have "fle (Num b) (Num M)" by (metis nth_mem)
    with le a b M show ?thesis by (simp only: fsub_reverses)
  qed
  from m 1 2 3 4 5 6 7 show ?thesis by blast
qed

theorem invert_in_place_witness:
  "snd (invert example_heap 0) = Inr 0 \<and>
   length (kernels (fst (invert example_heap 0))) = 1 \<and>
   backward (kernels (fst (invert example_heap 0)) ! 0) \<and>
   kernel_pseudotime (fst (invert example_heap 0)) 0 = Some [Num 2, Num 0, Num 1]"
proof -
  have h1: "0 < length (kernels example_heap)" by (simp add: example_heap_def)
  have h2: "pseudotime (kernels example_heap ! 0) < length (ndarrays example_heap)"
    by (simp add: example_heap_def example_kernel_def)
  have h3: "ndarrays example_heap ! pseudotime (kernels example_heap ! 0) = [Num 1, Num 3, Num 2]"
    by (simp add: example_heap_def example_kernel_def)
  have h4: "[Num 1, Num 3, Num 2] \<noteq> []" by simp
  from invert_in_place [OF h1 h2 h3 h4] obtain m where
    a: "snd (invert example_heap 0) = Inr 0"
    and b: "length (kernels (fst (invert example_heap 0))) = length (kernels example_heap)"
    and c: "backward (kernels (fst (invert example_heap 0)) ! 0)
              = (\<not> backward (kernels example_heap ! 0))"
    and m: "np_max [Num 1, Num 3, Num 2] = Inr m"
    and d: "kernel_pseudotime (fst (invert example_heap 0)) 0
              = Some (map (fsub m) [Num 1, Num 3, Num 2])"
    by blast
  from m have "m = Num 3" by simp
  with d have "kernel_pseudotime (fst (invert example_heap 0)) 0 = Some [Num 2, Num 0, Num 1]"
    by (simp add: round64_0 round64_1 round64_2)
  with a b c show ?thesis by (simp add: example_heap_def example_kernel_def)
qed

text \<open>
  C6, as stated, fails on a kernel with no cell: \<open>np.max\<close> raises on the empty pseudotime
  array, after the direction has been toggled, and the pseudotime is not replaced.
\<close>

theorem invert_zero_cells:
  "kernel_pseudotime (example_heap_on []) 0 = Some [] \<and>
   \<not> backward (kernels (example_heap_on []) ! 0) \<and>
   snd (invert (example_heap_on []) 0) =
     Inl (ValueError ''zero-size array to reduction operation maximum which has no identity'') \<and>
   backward (kernels (fst (invert (example_heap_on []) 0)) ! 0) \<and>
   kernel_pseudotime (fst (invert (example_heap_on []) 0)) 0 = Some []"
  by (simp add: example_heap_on_eq kernel_pseudotime_def invert_def Kernel_invert_def Let_def)

text \<open>
  C9, as amended. Inverting twice a PseudotimeKernel whose pseudotime array is not empty
  returns the receiver with the pseudotime \<open>np.max(p) - p\<close>, where
  \<open>p = np.max(old) - old\<close>, every difference rounded. When that array equals the original
  (\<open>np.array_equal\<close>), the original has no negative value and has the value 0: two
  inversions can restore the pseudotime only when its minimum is 0.
\<close>

theorem invert_twice:
  assumes "r < length (kernels h)"
    and "pseudotime (kernels h ! r) < length (ndarrays h)"
    and "ndarrays h ! pseudotime (kernels h ! r) = pt"
    and "pt \<noteq> []"
  shows "snd (invert (fst (invert h r)) r) = Inr r \<and>
    (\<exists>m m'. np_max pt = Inr m \<and> np_max (map (fsub m) pt) = Inr m' \<and>
       kernel_pseudotime (fst (invert (fst (invert h r)) r)) r
         = Some (map (fsub m') (map (fsub m) pt))) \<and>
    (\<forall>new. kernel_pseudotime (fst (invert (fst (invert h r)) r)) r = Some new \<longrightarrow>
       array_equal new pt \<longrightarrow> Num 0 \<in> set pt \<and> (\<forall>x \<in> set pt. fle (Num 0) x))"
proof -
  let ?h1 = "fst (invert h r)"
  from assms(4) obtain m where m: "np_max pt = Inr m" using np_max_nonempty by blast
  with assms(3) have m0: "np_max (ndarrays h ! pseudotime (kernels h ! r)) = Inr m" by simp
  note eq1 = invert_ok [OF assms(1,2) m0]
  let ?p = "map (fsub m) pt"
  have r1: "r < length (kernels ?h1)" using assms(1) by (simp add: eq1)
  have p1: "pseudotime (kernels ?h1 ! r) < length (ndarrays ?h1)"
    using assms(1) by (simp add: eq1)
  have a1: "ndarrays ?h1 ! pseudotime (kernels ?h1 ! r) = ?p"
    using assms(1,3) by (simp add: eq1)
  from assms(4) have "?p \<noteq> []" by simp
  then obtain m' where m': "np_max ?p = Inr m'" using np_max_nonempty by blast
  with a1 have m1: "np_max (ndarrays ?h1 ! pseudotime (kernels ?h1 ! r)) = Inr m'" by simp
  note eq2 = invert_ok [OF r1 p1 m1]
  have 1: "snd (invert ?h1 r) = Inr r" by (simp add: eq2)
  have 3: "kernel_pseudotime (fst (invert ?h1 r)) r = Some (map (fsub m') ?p)"
    using kernel_pseudotime_invert [OF r1 p1 m1] a1 by simp
  have 4: "Num 0 \<in> set pt \<and> (\<forall>x \<in> set pt. fle (Num 0) x)"
    if eq: "array_equal (map (fsub m') ?p) pt"
  proof -
    define p where "p = map (fsub m) pt"
    define q where "q = map (fsub m') p"
    from eq have "array_equal q pt" by (simp add: q_def p_def)
    from array_equal_eq [OF this] have e: "q = pt" and n: "NaN \<notin> set q" by simp_all
    have img: "fsub m' y \<in> set q" if "y \<in> set p" for y
      using that by (auto simp: q_def)
    have n1: "NaN \<notin> set p"
    proof
      assume "NaN \<in> set p"
      from img [OF this] n show False by (simp add: fsub_NaN_right)
    qed
    from m' have "np_max p = Inr m'" by (simp add: p_def)
    from np_max_bound [OF this n1] have mem: "m' \<in> set p" and ub: "\<forall>y \<in> set p. fle y m'"
      by simp_all
    have nn: "fle (Num 0) x" if "x \<in> set q" for x
    proof -
      from that obtain y where y: "y \<in> set p" and x: "x = fsub m' y" by (auto simp: q_def)
      from that n have "x \<noteq> NaN" by metis
      with x have "fsub m' y \<noteq> NaN" by simp
      from fsub_nonneg [OF ub [rule_format, OF y] this] x show ?thesis by simp
    qed
    from img [OF mem] n have "fsub m' m' \<noteq> NaN" by metis
    then have "fsub m' m' = Num 0" by (rule fsub_self)
    with img [OF mem] have "Num 0 \<in> set q" by simp
    with nn show ?thesis unfolding e by blast
  qed
  from m m' 1 3 4 show ?thesis by auto
qed

theorem invert_twice_witness:
  "snd (invert (fst (invert (example_heap_on [Num 0, Num 2, Num 1]) 0)) 0) = Inr 0 \<and>
   kernel_pseudotime (fst (invert (fst (invert (example_heap_on [Num 0, Num 2, Num 1]) 0)) 0)) 0
     = Some [Num 0, Num 2, Num 1] \<and>
   array_equal [Num 0, Num 2, Num 1] [Num 0, Num 2, Num 1] \<and>
   Num 0 \<in> set [Num 0, Num 2, Num 1]"
proof -
  let ?pt = "[Num 0, Num 2, Num 1]"
  let ?h = "example_heap_on ?pt"
  have e: "?h = \<lparr>ndarrays = [?pt], buffers = [], spmatrices = [],
      kernels = [\<lparr>adata = \<lparr>obs = [''dpt_pseudotime'' \<mapsto> ?pt], n_neighbors = None\<rparr>,
                  backward = False, time_key = ''dpt_pseudotime'',
                  conn = map (\<lambda>x. map (\<lambda>y. 1) ?pt) ?pt,
                  pseudotime = 0, params = Map.empty, cond_num = None,
                  transition_matrix = None\<rparr>]\<rparr>"
    by (rule example_heap_on_eq) simp
  have h1: "0 < length (kernels ?h)" by (simp add: e)
  have h2: "pseudotime (kernels ?h ! 0) < length (ndarrays ?h)" by (simp add: e)
  have h3: "ndarrays ?h ! pseudotime (kernels ?h ! 0) = ?pt" by (simp add: e)
  have h4: "?pt \<noteq> []" by simp
  from invert_twice [OF h1 h2 h3 h4] obtain m m' where
    a: "snd (invert (fst (invert ?h 0)) 0) = Inr 0"
    and m: "np_max ?pt = Inr m" and m': "np_max (map (fsub m) ?pt) = Inr m'"
    and k: "kernel_pseudotime (fst (invert (fst (invert ?h 0)) 0)) 0
              = Some (map (fsub m') (map (fsub m) ?pt))"
    and z: "\<forall>new. kernel_pseudotime (fst (invert (fst (invert ?h 0)) 0)) 0 = Some new \<longrightarrow>
       array_equal new ?pt \<longrightarrow> Num 0 \<in> set ?pt \<and> (\<forall>x \<in> set ?pt. fle (Num 0) x)"
    by blast
  from m have mm: "m = Num 2" by simp
  then have p: "map (fsub m) ?pt = [Num 2, Num 0, Num 1]"
    by (simp add: round64_0 round64_1 round64_2)
  with m' have "m' = Num 2" by simp
  with p have q: "map (fsub m') (map (fsub m) ?pt) = ?pt"
    by (simp add: round64_0 round64_1 round64_2)
  have ae: "array_equal ?pt ?pt" by (simp add: array_equal_def)
  from z [rule_format, of ?pt] k q ae have "Num 0 \<in> set ?pt \<and> (\<forall>x \<in> set ?pt. fle (Num 0) x)"
    by simp
  with a k q ae show ?thesis by simp
qed

text \<open>
  C9, as stated, fails. On the array \<open>[0.1, 0.3, 1.0]\<close> two inversions give
  \<open>[0.0, 0.20000000000000007, 0.9]\<close>, which is not the original minus its minimum,
  \<open>[0.0, 0.19999999999999998, 0.9]\<close>. On the array \<open>[0.0, 0.1, 1.0]\<close>, whose minimum is 0,
  two inversions give \<open>[0.0, 0.09999999999999998, 1.0]\<close>, which is not the original.
\<close>

theorem invert_twice_rounds:
  "kernel_pseudotime (example_heap_on
       [Num (3602879701896397 / 36028797018963968),
        Num (5404319552844595 / 18014398509481984), Num 1]) 0
     = Some [Num (3602879701896397 / 36028797018963968),
             Num (5404319552844595 / 18014398509481984), Num 1] \<and>
   kernel_pseudotime (fst (invert (fst (invert (example_heap_on
       [Num (3602879701896397 / 36028797018963968),
        Num (5404319552844595 / 18014398509481984), Num 1]) 0)) 0)) 0
     = Some [Num 0, Num (1801439850948199 / 9007199254740992),
             Num (8106479329266893 / 9007199254740992)] \<and>
   map (\<lambda>x. fsub x (Num (3602879701896397 / 36028797018963968)))
       [Num (3602879701896397 / 36028797018963968),
        Num (5404319552844595 / 18014398509481984), Num 1]
     = [Num 0, Num (7205759403792793 / 36028797018963968),
        Num (8106479329266893 / 9007199254740992)] \<and>
   kernel_pseudotime (example_heap_on [Num 0, Num (3602879701896397 / 36028797018963968), Num 1]) 0
     = Some [Num 0, Num (3602879701896397 / 36028797018963968), Num 1] \<and>
   kernel_pseudotime (fst (invert (fst (invert (example_heap_on
       [Num 0, Num (3602879701896397 / 36028797018963968), Num 1]) 0)) 0)) 0
     = Some [Num 0, Num (900719925474099 / 9007199254740992), Num 1]"
proof -
  let ?a = "3602879701896397 / 36028797018963968 :: real"
  let ?b = "5404319552844595 / 18014398509481984 :: real"
  let ?xs = "[Num ?a, Num ?b, Num 1]"
  let ?ys = "[Num 0, Num ?a, Num 1]"
  have nx: "NaN \<notin> set ?xs" and ny: "NaN \<notin> set ?ys" by simp_all
  have mx: "np_max ?xs = Inr (Num 1)" and my: "np_max ?ys = Inr (Num 1)" by simp_all
  have px: "map (fsub (Num 1)) ?xs =
      [Num (8106479329266893 / 9007199254740992), Num (3152519739159347 / 4503599627370496), Num 0]"
    by (simp only: list.map fsub.simps round64_1_sub_01 round64_1_sub_03 diff_self round64_0)
  have py: "map (fsub (Num 1)) ?ys = [Num 1, Num (8106479329266893 / 9007199254740992), Num 0]"
    by (simp only: list.map fsub.simps round64_1_sub_01 diff_zero round64_1 diff_self round64_0)
  have mx': "np_max (map (fsub (Num 1)) ?xs) = Inr (Num (8106479329266893 / 9007199254740992))"
    unfolding px by simp
  have my': "np_max (map (fsub (Num 1)) ?ys) = Inr (Num 1)"
    unfolding py by simp
  have qx: "map (fsub (Num (8106479329266893 / 9007199254740992))) (map (fsub (Num 1)) ?xs) =
      [Num 0, Num (1801439850948199 / 9007199254740992), Num (8106479329266893 / 9007199254740992)]"
    unfolding px
    by (simp only: list.map fsub.simps round64_09_sub_07 diff_zero round64_09 diff_self round64_0)
  have qy: "map (fsub (Num 1)) (map (fsub (Num 1)) ?ys) =
      [Num 0, Num (900719925474099 / 9007199254740992), Num 1]"
    unfolding py
    by (simp only: list.map fsub.simps round64_1_sub_09 diff_zero round64_1 diff_self round64_0)
  have 1: "kernel_pseudotime (example_heap_on ?xs) 0 = Some ?xs"
    by (rule invert_example_heap_on(1) [OF nx mx])
  have 2: "kernel_pseudotime (fst (invert (fst (invert (example_heap_on ?xs) 0)) 0)) 0
     = Some [Num 0, Num (1801439850948199 / 9007199254740992),
             Num (8106479329266893 / 9007199254740992)]"
    unfolding invert_example_heap_on(4) [OF nx mx] mx' by (simp only: sum.case qx)
  have 3: "map (\<lambda>x. fsub x (Num ?a)) ?xs
     = [Num 0, Num (7205759403792793 / 36028797018963968),
        Num (8106479329266893 / 9007199254740992)]"
    by (simp only: list.map fsub.simps round64_03_sub_01 round64_1_sub_01 diff_self round64_0)
  have 4: "kernel_pseudotime (example_heap_on ?ys) 0 = Some ?ys"
    by (rule invert_example_heap_on(1) [OF ny my])
  have 5: "kernel_pseudotime (fst (invert (fst (invert (example_heap_on ?ys) 0)) 0)) 0
     = Some [Num 0, Num (900719925474099 / 9007199254740992), Num 1]"
    unfolding invert_example_heap_on(4) [OF ny my] my' by (simp only: sum.case qy)
  from 1 2 3 4 5 show ?thesis by (intro conjI)
qed

section \<open>Properties of the transition-matrix cache\<close>

lemma reuse_cache_hit:
  "params k = e \<Longrightarrow> transition_matrix k \<noteq> None \<Longrightarrow> reuse_cache k e = (True, k)"
  by (simp add: reuse_cache_def)

lemma compute_hit:
  assumes "r < length (kernels h)"
    and "get_n_neighbors (adata (kernels h ! r)) (conn (kernels h ! r)) = Inr n"
    and "select_scheme ts ftk b nu n kw = Inr (sch, sstr, kw')"
    and "params (kernels h ! r) = [''dnorm'' \<mapsto> PBool False, ''scheme'' \<mapsto> PStr sstr] ++ kw'"
    and "transition_matrix (kernels h ! r) \<noteq> None"
  shows "compute_transition_matrix bk rn h r ts ftk b nu ci nj be spb kw = (h, Inr r)"
  using assms
  by (simp add: compute_transition_matrix_def reuse_cache_hit del: map_add_upd fun_upd_apply)

text \<open>
  C7. When a call of \<open>compute_transition_matrix\<close> has returned, a second call with the same
  scheme and the same scheme parameters (whatever its \<open>check_irreducibility\<close>, \<open>n_jobs\<close>,
  \<open>backend\<close> and \<open>show_progress_bar\<close>) returns the same kernel object and leaves the whole
  store, the transition matrix included, as it was: the parameters are those cached with
  the matrix.
\<close>

theorem recompute_same_params_noop:
  assumes "compute_transition_matrix bk rn h r ts ftk b nu ci nj be spb kw = (h1, Inr r1)"
  shows "r1 = r \<and>
         compute_transition_matrix bk rn h1 r ts ftk b nu ci' nj' be' spb' kw = (h1, Inr r) \<and>
         (\<exists>a. transition_matrix (kernels h1 ! r) = Some a)"
proof -
  from assms have r: "r < length (kernels h)"
    by (auto simp: compute_transition_matrix_def split: if_splits)
  let ?k = "kernels h ! r"
  from assms r obtain n where n: "get_n_neighbors (adata ?k) (conn ?k) = Inr n"
    by (cases "get_n_neighbors (adata ?k) (conn ?k)") (auto simp: compute_transition_matrix_def)
  from assms r n obtain sch sstr kw' where s: "select_scheme ts ftk b nu n kw = Inr (sch, sstr, kw')"
    by (cases "select_scheme ts ftk b nu n kw") (auto simp: compute_transition_matrix_def)
  let ?key = "[''dnorm'' \<mapsto> PBool False, ''scheme'' \<mapsto> PStr sstr] ++ kw'"
  show ?thesis
  proof (cases "params ?k = ?key \<and> transition_matrix ?k \<noteq> None")
    case True
    with assms r n s have "h1 = h" "r1 = r"
      by (simp_all add: compute_transition_matrix_def reuse_cache_def del: map_add_upd fun_upd_apply)
    moreover from True r n s
    have "compute_transition_matrix bk rn h r ts ftk b nu ci' nj' be' spb' kw = (h, Inr r)"
      by (intro compute_hit) auto
    ultimately show ?thesis using True by auto
  next
    case False
    let ?k1 = "?k\<lparr>params := ?key\<rparr>"
    let ?h1 = "h\<lparr>kernels := (kernels h)[r := ?k1]\<rparr>"
    from False have rc: "reuse_cache ?k ?key = (False, ?k1)"
      by (auto simp: reuse_cache_def simp del: map_add_upd fun_upd_apply)
    from assms r n s rc have p: "pseudotime ?k < length (ndarrays h)"
      by (auto simp: compute_transition_matrix_def Let_def simp del: map_add_upd fun_upd_apply
               split: if_splits)
    from assms r n s rc p obtain bc where
      bc: "bk sch (conn ?k) (ndarrays h ! pseudotime ?k) nj be spb kw' = Inr bc"
      by (cases "bk sch (conn ?k) (ndarrays h ! pseudotime ?k) nj be spb kw'")
         (auto simp: compute_transition_matrix_def Let_def simp del: map_add_upd fun_upd_apply)
    from assms r n s rc p bc obtain tm where tm: "rn ci bc = Inr tm"
      by (cases "rn ci bc")
         (auto simp: compute_transition_matrix_def Let_def simp del: map_add_upd fun_upd_apply)
    let ?k2 = "?k1\<lparr>transition_matrix := Some (length (spmatrices h))\<rparr>"
    from assms r n s rc p bc tm have h1: "h1 = h\<lparr>buffers := buffers h @ [tm],
        spmatrices := spmatrices h @ [\<lparr>data = length (buffers h)\<rparr>],
        kernels := (kernels h)[r := ?k2]\<rparr>" and r1: "r1 = r"
      by (auto simp: compute_transition_matrix_def Let_def simp del: map_add_upd fun_upd_apply)
    have k2: "kernels h1 ! r = ?k2" and r': "r < length (kernels h1)"
      using r by (simp_all add: h1)
    have n': "get_n_neighbors (adata (kernels h1 ! r)) (conn (kernels h1 ! r)) = Inr n"
      using n by (simp add: k2)
    have "compute_transition_matrix bk rn h1 r ts ftk b nu ci' nj' be' spb' kw = (h1, Inr r)"
      by (rule compute_hit [OF r' n' s]) (simp_all add: k2 del: map_add_upd fun_upd_apply)
    with r1 k2 show ?thesis by simp
  qed
qed

theorem recompute_same_params_noop_witness:
  "compute_transition_matrix example_bias_knn example_row_normalize example_heap 0
      (Str ''hard'') (PFloat (Num (3/10))) (PFloat (Num 10)) (PFloat (Num (1/2)))
      False None ''loky'' True Map.empty = (example_heap_computed, Inr 0) \<and>
   compute_transition_matrix example_bias_knn example_row_normalize example_heap_computed 0
      (Str ''hard'') (PFloat (Num (3/10))) (PFloat (Num 10)) (PFloat (Num (1/2)))
      False None ''loky'' True Map.empty = (example_heap_computed, Inr 0)"
proof -
  have first: "compute_transition_matrix example_bias_knn example_row_normalize example_heap 0
      (Str ''hard'') (PFloat (Num (3/10))) (PFloat (Num 10)) (PFloat (Num (1/2)))
      False None ''loky'' True Map.empty = (example_heap_computed, Inr 0)"
    by (simp add: compute_transition_matrix_def get_n_neighbors_def select_scheme_def
          ThresholdScheme_of_def reuse_cache_def example_heap_def example_kernel_def
          example_heap_computed_def example_bias_knn_def example_row_normalize_def)
  from recompute_same_params_noop [OF first] first show ?thesis by simp
qed

section \<open>Properties of copying\<close>

lemma PseudotimeKernel_copy_ok:
  assumes r: "r < length (kernels h)"
    and init: "read_from_adata base_read (adata (kernels h ! r)) (backward (kernels h ! r))
                 (time_key (kernels h ! r)) = Inr (c, pt0)"
    and p: "pseudotime (kernels h ! r) < length (ndarrays h)"
    and t: "transition_matrix (kernels h ! r) = Some a"
    and a: "a < length (spmatrices h)"
  shows "PseudotimeKernel_copy base_read h r =
    (h\<lparr>ndarrays := ndarrays h @ [pt0, ndarrays h ! pseudotime (kernels h ! r)],
       spmatrices := spmatrices h @ [spmatrices h ! a],
       kernels := kernels h @
         [\<lparr>adata = adata (kernels h ! r), backward = backward (kernels h ! r),
           time_key = time_key (kernels h ! r), conn = c,
           pseudotime = Suc (length (ndarrays h)), params = params (kernels h ! r),
           cond_num = cond_num (kernels h ! r),
           transition_matrix = Some (length (spmatrices h))\<rparr>]\<rparr>,
     Inr (length (kernels h)))"
  using assms
  by (simp add: PseudotimeKernel_copy_def PseudotimeKernel_init_def copy_ndarray_def
        copy_spmatrix_def Let_def nth_append)

lemma example_copy_eq:
  "PseudotimeKernel_copy example_base_read example_heap_computed 0 =
    (example_heap_computed\<lparr>
       ndarrays := ndarrays example_heap_computed @ [[Num 1, Num 3, Num 2], [Num 1, Num 3, Num 2]],
       spmatrices := spmatrices example_heap_computed @ [\<lparr>data = 0\<rparr>],
       kernels := kernels example_heap_computed @
         [(kernels example_heap_computed ! 0)\<lparr>pseudotime := 2, transition_matrix := Some 1\<rparr>]\<rparr>,
     Inr 1)"
proof -
  have r: "0 < length (kernels example_heap_computed)" by (simp add: example_heap_computed_def)
  have i: "read_from_adata example_base_read (adata (kernels example_heap_computed ! 0))
      (backward (kernels example_heap_computed ! 0)) (time_key (kernels example_heap_computed ! 0))
      = Inr ([[0, 1, 1], [1, 0, 1], [1, 1, 0]], [Num 1, Num 3, Num 2])"
    by (simp add: read_from_adata_def example_base_read_def example_heap_computed_def
          example_kernel_def)
  have p: "pseudotime (kernels example_heap_computed ! 0) < length (ndarrays example_heap_computed)"
    by (simp add: example_heap_computed_def example_kernel_def)
  have t: "transition_matrix (kernels example_heap_computed ! 0) = Some 0"
    by (simp add: example_heap_computed_def)
  have a: "0 < length (spmatrices example_heap_computed)" by (simp add: example_heap_computed_def)
  show ?thesis
    unfolding PseudotimeKernel_copy_ok [OF r i p t a]
    by (simp add: example_heap_computed_def example_kernel_def)
qed

text \<open>
  C5. On the example kernel \<open>copy\<close> returns a new kernel (kernel 1) with the direction of
  the original (kernel 0) and with the same pseudotime in an array of its own. Its
  transition matrix (matrix 1) is a new matrix object with the entries of the original's
  (matrix 0), but the two matrix objects share their buffer: after the entries of the
  copy's matrix are doubled in place, the original's matrix reads the doubled entries.
\<close>

theorem PseudotimeKernel_copy_shares_memory:
  "snd (PseudotimeKernel_copy example_base_read example_heap_computed 0) = Inr 1 \<and>
   backward (kernels example_heap_copied ! 1) = backward (kernels example_heap_copied ! 0) \<and>
   pseudotime (kernels example_heap_copied ! 0) = 0 \<and>
   pseudotime (kernels example_heap_copied ! 1) = 2 \<and>
   kernel_pseudotime example_heap_copied 1 = kernel_pseudotime example_heap_copied 0 \<and>
   transition_matrix (kernels example_heap_copied ! 0) = Some 0 \<and>
   transition_matrix (kernels example_heap_copied ! 1) = Some 1 \<and>
   toarray example_heap_copied 0 = Some [[0, 1/2, 1/2], [1/2, 0, 1/2], [1/2, 1/2, 0]] \<and>
   toarray example_heap_copied 1 = Some [[0, 1/2, 1/2], [1/2, 0, 1/2], [1/2, 1/2, 0]] \<and>
   shares_memory example_heap_copied 0 1 \<and>
   toarray (imul example_heap_copied 1 2) 0 = Some [[0, 1, 1], [1, 0, 1], [1, 1, 0]]"
proof -
  have e: "example_heap_copied =
     example_heap_computed\<lparr>
       ndarrays := ndarrays example_heap_computed @ [[Num 1, Num 3, Num 2], [Num 1, Num 3, Num 2]],
       spmatrices := spmatrices example_heap_computed @ [\<lparr>data = 0\<rparr>],
       kernels := kernels example_heap_computed @
         [(kernels example_heap_computed ! 0)\<lparr>pseudotime := 2, transition_matrix := Some 1\<rparr>]\<rparr>"
    by (simp add: example_heap_copied_def example_copy_eq)
  have 1: "snd (PseudotimeKernel_copy example_base_read example_heap_computed 0) = Inr 1"
    by (simp add: example_copy_eq)
  have 2: "backward (kernels example_heap_copied ! 1) = backward (kernels example_heap_copied ! 0) \<and>
     pseudotime (kernels example_heap_copied ! 0) = 0 \<and>
     pseudotime (kernels example_heap_copied ! 1) = 2 \<and>
     kernel_pseudotime example_heap_copied 1 = kernel_pseudotime example_heap_copied 0"
    unfolding e
    by (simp add: kernel_pseudotime_def example_heap_computed_def example_kernel_def)
  have 3: "transition_matrix (kernels example_heap_copied ! 0) = Some 0 \<and>
     transition_matrix (kernels example_heap_copied ! 1) = Some 1 \<and>
     toarray example_heap_copied 0 = Some [[0, 1/2, 1/2], [1/2, 0, 1/2], [1/2, 1/2, 0]] \<and>
     toarray example_heap_copied 1 = Some [[0, 1/2, 1/2], [1/2, 0, 1/2], [1/2, 1/2, 0]] \<and>
     shares_memory example_heap_copied 0 1 \<and>
     toarray (imul example_heap_copied 1 2) 0 = Some [[0, 1, 1], [1, 0, 1], [1, 1, 0]]"
    unfolding e
    by (simp add: shares_memory_def toarray_def imul_def example_heap_computed_def)
  from 1 2 3 show ?thesis by simp
qed

section \<open>Properties of the fate probabilities\<close>

lemma reference_solve:
  "compute_fate_probabilities reference_estimator (1 / 10 ^ 6) =
     Inr (reference_estimator\<lparr>fate_probabilities := Some reference_fate_probabilities\<rparr>)"
  by (simp add: compute_fate_probabilities_def reference_estimator_def reference_states_def
        reference_transition_matrix_def transient_cells_def group_cells_def
        solve_lin_system_def eliminate_def embed_fate_probabilities_def
        check_fate_probabilities_def count_negative_def count_not_summing_def sums_to_1_def
        reference_fate_probabilities_def upt_rec)

lemma reference_close:
  "allclose (1 / 10 ^ 6)
     (isna_rows (assignment reference_states) reference_fate_probabilities)
     fate_probabilities_reference"
  by (simp add: allclose_def isna_rows_def reference_states_def reference_states_def
        reference_fate_probabilities_def fate_probabilities_reference_def)

lemma reference_harmonic:
  "isna_rows (assignment reference_states)
      (matmul reference_transition_matrix reference_fate_probabilities)
   = isna_rows (assignment reference_states) reference_fate_probabilities"
  by (simp add: isna_rows_def matmul_def reference_states_def reference_transition_matrix_def
        reference_fate_probabilities_def upt_rec)

text \<open>
  C1. On the 12-state reference chain with terminal states at cells 7 and 10,
  \<open>compute_fate_probabilities\<close> returns; the fate probabilities it stores are the exact
  absorption probabilities (on the transient rows they satisfy \<open>F = T F\<close>), and the rows
  of the ten transient cells are within \<open>1e-6\<close> of the reference matrix of the test,
  entry by entry.
\<close>

theorem reference_fate_probabilities_close:
  "compute_fate_probabilities reference_estimator (1 / 10 ^ 6) =
     Inr (reference_estimator\<lparr>fate_probabilities := Some reference_fate_probabilities\<rparr>) \<and>
   allclose (1 / 10 ^ 6)
     (isna_rows (assignment reference_states) reference_fate_probabilities)
     fate_probabilities_reference \<and>
   isna_rows (assignment reference_states)
      (matmul reference_transition_matrix reference_fate_probabilities)
     = isna_rows (assignment reference_states) reference_fate_probabilities"
  using reference_solve reference_close reference_harmonic by blast


theorem reference_fate_probabilities_close_witness:
  "map_option (\<lambda>fp. (fp ! 4, fp ! 7, fp ! 11))
     (case compute_fate_probabilities reference_estimator (1 / 10 ^ 6) of
        Inl e \<Rightarrow> None | Inr est \<Rightarrow> fate_probabilities est)
   = Some ([106 / 175, 69 / 175], [1, 0], [1 / 21, 20 / 21])"
  using reference_fate_probabilities_close
  by (simp add: reference_fate_probabilities_def)














section \<open>Properties of the terminal states\<close>

lemma rename_Nil: "rename [] = (\<lambda>c. c)"
  by (rule ext) (simp add: rename_def)

text \<open>
  C8. On an estimator with terminal states, renaming with the empty mapping returns the
  estimator as it is: the categories, and so the set of categories, are unchanged.
\<close>

theorem rename_terminal_states_empty:
  assumes "term_states est = Some ts" and "distinct (categories ts)"
  shows "rename_terminal_states est [] = Inr est \<and>
         (\<forall>est'. rename_terminal_states est [] = Inr est' \<longrightarrow>
            map_option categories (term_states est') = Some (categories ts) \<and>
            map_option (set \<circ> categories) (term_states est') = Some (set (categories ts)))"
proof -
  have "map (map_option (\<lambda>c. c)) (assignment ts) = assignment ts"
    by (simp add: option.map_ident cong: map_cong)
  with assms have "rename_terminal_states est [] = Inr est"
    by (simp add: rename_terminal_states_def rename_Nil)
  with assms(1) show ?thesis by simp
qed


theorem rename_terminal_states_empty_witness:
  "rename_terminal_states reference_estimator [] = Inr reference_estimator \<and>
   map_option categories (term_states reference_estimator)
     = Some [''terminal_1'', ''terminal_2'']"
proof -
  have t: "term_states reference_estimator = Some reference_states"
    by (simp add: reference_estimator_def)
  have d: "distinct (categories reference_states)"
    by (simp add: reference_states_def)
  from rename_terminal_states_empty [OF t d] show ?thesis
    by (simp add: t reference_states_def)
qed


lemma find_listed:
  assumes "distinct (concat (map snd states))"
    and "(name, cells) \<in> set states" and "c \<in> set cells"
  shows "find (\<lambda>(n, cs). c \<in> set cs) states = Some (name, cells)"
  using assms
proof (induction states)
  case Nil
  then show ?case by simp
next
  case (Cons p ps)
  obtain n0 cs0 where p: "p = (n0, cs0)" by (cases p)
  show ?case
  proof (cases "c \<in> set cs0")
    case True
    have "(name, cells) = (n0, cs0)"
    proof (rule ccontr)
      assume "(name, cells) \<noteq> (n0, cs0)"
      with Cons.prems(2) p have "(name, cells) \<in> set ps" by auto
      with Cons.prems(3) have "c \<in> set (concat (map snd ps))" by force
      with True Cons.prems(1) p show False by auto
    qed
    with True p show ?thesis by simp
  next
    case False
    with Cons.prems(2,3) p have "(name, cells) \<in> set ps" by auto
    moreover from Cons.prems(1) have "distinct (concat (map snd ps))" by simp
    ultimately have "find (\<lambda>(n, cs). c \<in> set cs) ps = Some (name, cells)"
      using Cons.IH Cons.prems(3) by blast
    with False p show ?thesis by simp
  qed
qed

lemma find_unlisted:
  assumes "\<forall>(name, cells) \<in> set states. c \<notin> set cells"
  shows "find (\<lambda>(n, cs). c \<in> set cs) states = None"
  using assms by (auto simp: find_None_iff)

text \<open>
  C10. Whatever terminal states the estimator had before, after \<open>set_terminal_states\<close>
  with a mapping that lists no cell twice, a cell listed under a name carries that name
  and a cell that is not listed is unassigned.
\<close>

theorem set_terminal_states_overrides:
  assumes "distinct (concat (map snd states))" and "i < length (obs_names est)"
  shows "\<exists>ts. term_states (set_terminal_states est states) = Some ts \<and>
           length (assignment ts) = length (obs_names est) \<and>
           (\<forall>name cells. (name, cells) \<in> set states \<and> obs_names est ! i \<in> set cells
              \<longrightarrow> assignment ts ! i = Some name) \<and>
           ((\<forall>(name, cells) \<in> set states. obs_names est ! i \<notin> set cells)
              \<longrightarrow> assignment ts ! i = None)"
proof -
  let ?ts = "\<lparr>assignment =
      map (\<lambda>c. map_option fst (find (\<lambda>(name, cells). c \<in> set cells) states)) (obs_names est),
      categories = map fst states\<rparr>"
  have 1: "term_states (set_terminal_states est states) = Some ?ts"
    by (simp add: set_terminal_states_def)
  have 2: "length (assignment ?ts) = length (obs_names est)" by simp
  have 3: "assignment ?ts ! i = Some name"
    if l: "(name, cells) \<in> set states \<and> obs_names est ! i \<in> set cells" for name cells
  proof -
    from l have "find (\<lambda>(n, cs). obs_names est ! i \<in> set cs) states = Some (name, cells)"
      by (intro find_listed [OF assms(1)]) simp_all
    with assms(2) show ?thesis by simp
  qed
  have 4: "assignment ?ts ! i = None"
    if "\<forall>(name, cells) \<in> set states. obs_names est ! i \<notin> set cells"
    using that assms(2) by (simp add: find_unlisted)
  from 1 2 3 4 show ?thesis by blast
qed


theorem set_terminal_states_overrides_witness:
  "map_option (\<lambda>ts. (assignment ts ! 0, assignment ts ! 7))
     (term_states (set_terminal_states reference_estimator [(''foo'', [''0'', ''1''])]))
   = Some (Some ''foo'', None)"
proof -
  have d: "distinct (concat (map snd [(''foo'', [''0'', ''1''])]))" by simp
  have i0: "0 < length (obs_names reference_estimator)"
    and i7: "7 < length (obs_names reference_estimator)"
    by (simp_all add: reference_estimator_def)
  have n0: "obs_names reference_estimator ! 0 = ''0''"
    and n7: "obs_names reference_estimator ! 7 = ''7''"
    by (simp_all add: reference_estimator_def str_nat.simps [of 0] str_nat.simps [of 7]
          digit_char_def)
  from set_terminal_states_overrides [OF d i0] obtain ts where
    ts: "term_states (set_terminal_states reference_estimator [(''foo'', [''0'', ''1''])]) = Some ts"
    and a0: "\<forall>name cells. (name, cells) \<in> set [(''foo'', [''0'', ''1''])] \<and>
               obs_names reference_estimator ! 0 \<in> set cells \<longrightarrow> assignment ts ! 0 = Some name"
    by blast
  from set_terminal_states_overrides [OF d i7] ts have
    a7: "(\<forall>(name, cells) \<in> set [(''foo'', [''0'', ''1''])].
            obs_names reference_estimator ! 7 \<notin> set cells) \<longrightarrow> assignment ts ! 7 = None"
    by auto
  from a0 have "assignment ts ! 0 = Some ''foo''" by (simp add: n0)
  moreover from a7 have "assignment ts ! 7 = None" by (simp add: n7)
  ultimately show ?thesis by (simp add: ts)
qed

end
